theory Spec2Isabelle
  imports Complex_Main "HOL-Library.Sublist" "HOL-Library.Char_ord" "HOL-Library.List_Lexorder"
begin

section \<open>Python values\<close>

text \<open>The exceptions the modelled code can end in.\<close>

datatype py_error =
    ValueError string
  | KeyError string
  | FileNotFoundError string
  | AttributeError string
  | RuntimeError string
  | IndexError string
  | NameError string
  | OSError string
  | ZeroDivisionError
  | OverflowError

text \<open>Sequencing of computations that may raise: the first exception wins.\<close>

definition then_do :: "py_error + 'a \<Rightarrow> ('a \<Rightarrow> py_error + 'b) \<Rightarrow> py_error + 'b" where
  "then_do m f = (case m of Inl e \<Rightarrow> Inl e | Inr v \<Rightarrow> f v)"

text \<open>\<^verbatim>\<open>d[k]\<close> on a dict: \<^verbatim>\<open>KeyError\<close> when the key is missing.\<close>

definition getitem :: "(string \<rightharpoonup> 'a) \<Rightarrow> string \<Rightarrow> py_error + 'a" where
  "getitem d k = (case d k of None \<Rightarrow> Inl (KeyError k) | Some v \<Rightarrow> Inr v)"

section \<open>Floating-point arithmetic\<close>

text \<open>
  The program computes with binary floating-point numbers: Python's \<^verbatim>\<open>float\<close> and
  \<^verbatim>\<open>complex\<close>, numpy's \<^verbatim>\<open>float64\<close> and \<^verbatim>\<open>complex128\<close> arrays, pandas' reductions.
  Their results are rounded, they overflow and underflow, and the library reductions add in
  an order of their own. None of this is fixed here. The floats are a type \<open>'f\<close>, and every
  primitive operation on them that the source uses is a field of the record below. Every
  definition translated from the source takes such a record as its first argument, and every
  theorem about it holds for all records, whatever the operations compute: so also for the
  arithmetic the program runs on.

  \<^item> \<open>f_lit\<close> is the float of a decimal literal of the source or of an integer
    (\<^verbatim>\<open>float(k)\<close>); \<open>f_nan\<close> is \<^verbatim>\<open>float("nan")\<close>.
  \<^item> \<open>f_sub\<close>, \<open>f_mul\<close>, \<open>f_div\<close> are \<^verbatim>\<open>-\<close>, \<^verbatim>\<open>*\<close> and \<^verbatim>\<open>/\<close>, \<open>f_div\<close> the division
    that raises nothing (numpy's; Python's own is \<open>py_div\<close> below); \<open>f_sq\<close> is
    \<^verbatim>\<open>v ** 2\<close> on an array element, \<open>f_pow\<close> is \<^verbatim>\<open>a ** b\<close> on Python floats, which can
    raise; \<open>f_abs\<close>, \<open>f_sqrt\<close>, \<open>f_cos\<close>, \<open>f_sin\<close>, \<open>f_sign\<close> are \<^verbatim>\<open>abs\<close>,
    \<^verbatim>\<open>np.sqrt\<close>, \<^verbatim>\<open>math.cos\<close>, \<^verbatim>\<open>math.sin\<close>, \<^verbatim>\<open>np.sign\<close>.
  \<^item> \<open>f_le\<close>, \<open>f_lt\<close>, \<open>f_eq\<close> are \<^verbatim>\<open><=\<close>, \<^verbatim>\<open><\<close>, \<^verbatim>\<open>==\<close>; the source's \<^verbatim>\<open>a >= b\<close>,
    \<^verbatim>\<open>a > b\<close> and \<^verbatim>\<open>a != b\<close> are \<open>f_le b a\<close>, \<open>f_lt b a\<close> and \<open>\<not> f_eq a b\<close>.
    \<open>f_isnan\<close> tells the values that pandas skips.
  \<^item> \<open>np_sum\<close> and \<open>np_mean\<close> are \<^verbatim>\<open>np.sum\<close> and \<^verbatim>\<open>np.mean\<close> of a one-dimensional
    array, \<open>np_dot_aligned\<close> is \<^verbatim>\<open>np.dot\<close> of two such arrays of one length.
  \<^item> \<open>pd_mean\<close> is the pandas reduction \<^verbatim>\<open>"mean"\<close> of a non-empty NaN-free column;
    \<open>pd_std ddof\<close> is \<^verbatim>\<open>"std"\<close> with \<open>ddof\<close> delta degrees of freedom (the divisor is the
    count minus \<open>ddof\<close>) of a NaN-free column of more than \<open>ddof\<close> values.
\<close>

record 'f arith =
  f_lit :: "real \<Rightarrow> 'f"
  f_nan :: 'f
  f_sub :: "'f \<Rightarrow> 'f \<Rightarrow> 'f"
  f_mul :: "'f \<Rightarrow> 'f \<Rightarrow> 'f"
  f_div :: "'f \<Rightarrow> 'f \<Rightarrow> 'f"
  f_sq :: "'f \<Rightarrow> 'f"
  f_pow :: "'f \<Rightarrow> 'f \<Rightarrow> py_error + 'f"
  f_abs :: "'f \<Rightarrow> 'f"
  f_sqrt :: "'f \<Rightarrow> 'f"
  f_cos :: "'f \<Rightarrow> 'f"
  f_sin :: "'f \<Rightarrow> 'f"
  f_sign :: "'f \<Rightarrow> 'f"
  f_le :: "'f \<Rightarrow> 'f \<Rightarrow> bool"
  f_lt :: "'f \<Rightarrow> 'f \<Rightarrow> bool"
  f_eq :: "'f \<Rightarrow> 'f \<Rightarrow> bool"
  f_isnan :: "'f \<Rightarrow> bool"
  np_sum :: "'f list \<Rightarrow> 'f"
  np_mean :: "'f list \<Rightarrow> 'f"
  np_dot_aligned :: "'f list \<Rightarrow> 'f list \<Rightarrow> 'f"
  pd_mean :: "'f list \<Rightarrow> 'f"
  pd_std :: "nat \<Rightarrow> 'f list \<Rightarrow> 'f"

text \<open>\<^verbatim>\<open>v == 0\<close>, and its negation \<^verbatim>\<open>v != 0\<close>.\<close>

definition eq_zero :: "'f arith \<Rightarrow> 'f \<Rightarrow> bool" where
  "eq_zero ar v = f_eq ar v (f_lit ar 0)"

text \<open>
  \<^verbatim>\<open>a / b\<close> on two Python floats: \<^verbatim>\<open>ZeroDivisionError\<close> when the divisor equals zero.
\<close>

definition py_div :: "'f arith \<Rightarrow> 'f \<Rightarrow> 'f \<Rightarrow> py_error + 'f" where
  "py_div ar a b = (if eq_zero ar b then Inl ZeroDivisionError else Inr (f_div ar a b))"

text \<open>
  The complex numbers are a second type \<open>'c\<close>, with the operations of Python's \<^verbatim>\<open>complex\<close>
  and of \<^verbatim>\<open>np.fft\<close> that the signal synthesizer uses: \<open>c_make\<close> is \<^verbatim>\<open>complex(re, im)\<close>,
  \<open>c_of\<close> the conversion of a float operand, \<open>c_j\<close> the literal \<^verbatim>\<open>1j\<close>, \<open>c_re\<close> the
  attribute \<^verbatim>\<open>.real\<close>, \<open>c_abs\<close> is \<^verbatim>\<open>np.abs\<close>; \<open>fft_rfft x\<close> is \<^verbatim>\<open>np.fft.rfft(x)\<close> of a
  non-empty array and \<open>fft_irfft spec m\<close> is \<^verbatim>\<open>np.fft.irfft(spec, n=m)\<close> for \<open>m > 0\<close>.
\<close>

record ('f, 'c) cplx =
  c_make :: "'f \<Rightarrow> 'f \<Rightarrow> 'c"
  c_of :: "'f \<Rightarrow> 'c"
  c_j :: 'c
  c_add :: "'c \<Rightarrow> 'c \<Rightarrow> 'c"
  c_mul :: "'c \<Rightarrow> 'c \<Rightarrow> 'c"
  c_re :: "'c \<Rightarrow> 'f"
  c_abs :: "'c \<Rightarrow> 'f"
  fft_rfft :: "'f list \<Rightarrow> 'c list"
  fft_irfft :: "'c list \<Rightarrow> nat \<Rightarrow> 'f list"

section \<open>The experiment engine (run\_v6\_2\_experiment.py): arrays and fits\<close>

text \<open>
  A one-dimensional numpy array of floats is the list of its elements. An operation on two
  arrays broadcasts as numpy does: equal lengths work elementwise, an array of length one
  is spread over the other, anything else raises \<^verbatim>\<open>ValueError\<close>.
\<close>

definition np_binop :: "('f \<Rightarrow> 'f \<Rightarrow> 'f) \<Rightarrow> 'f list \<Rightarrow> 'f list \<Rightarrow> py_error + 'f list" where
  "np_binop f xs ys =
     (if length xs = length ys then Inr (map2 f xs ys)
      else if length xs = 1 then Inr (map (f (hd xs)) ys)
      else if length ys = 1 then Inr (map (\<lambda>x. f x (hd ys)) xs)
      else Inl (ValueError ''operands could not be broadcast together''))"

text \<open>\<^verbatim>\<open>np.dot\<close> of two one-dimensional arrays: their lengths must agree.\<close>

definition np_dot :: "'f arith \<Rightarrow> 'f list \<Rightarrow> 'f list \<Rightarrow> py_error + 'f" where
  "np_dot ar xs ys =
     (if length xs = length ys then Inr (np_dot_aligned ar xs ys)
      else Inl (ValueError ''shapes not aligned''))"

text \<open>
  \<^verbatim>\<open>unit_rms\<close>. Subtracting the scalar mean, squaring elementwise and dividing by the scalar
  \<^verbatim>\<open>rms\<close> are numpy operations on one array and raise nothing. \<open>centred\<close> is the value of
  \<^verbatim>\<open>x\<close> after the first line and \<open>rms_energy\<close> is \<^verbatim>\<open>np.sqrt(np.mean(x * x))\<close>.
\<close>

definition centred :: "'f arith \<Rightarrow> 'f list \<Rightarrow> 'f list" where
  "centred ar x = map (\<lambda>v. f_sub ar v (np_mean ar x)) x"

definition rms_energy :: "'f arith \<Rightarrow> 'f list \<Rightarrow> 'f" where
  "rms_energy ar x = f_sqrt ar (np_mean ar (map (\<lambda>v. f_mul ar v v) x))"

definition unit_rms :: "'f arith \<Rightarrow> 'f list \<Rightarrow> 'f list" where
  "unit_rms ar x0 =
     (let x = centred ar x0;
          rms = rms_energy ar x
      in if eq_zero ar rms then x else map (\<lambda>v. f_div ar v rms) x)"

text \<open>
  \<^verbatim>\<open>r2_score\<close>, with its two local sums named: \<^verbatim>\<open>np.sum((y - yhat) ** 2)\<close>, where the
  subtraction broadcasts, and \<^verbatim>\<open>np.sum((y - np.mean(y)) ** 2)\<close>. Both are converted to
  Python floats, so the division is Python's.
\<close>

definition ss_res :: "'f arith \<Rightarrow> 'f list \<Rightarrow> 'f list \<Rightarrow> py_error + 'f" where
  "ss_res ar y yhat =
     then_do (np_binop (f_sub ar) y yhat) (\<lambda>res. Inr (np_sum ar (map (f_sq ar) res)))"

definition ss_tot :: "'f arith \<Rightarrow> 'f list \<Rightarrow> 'f" where
  "ss_tot ar y = np_sum ar (map (f_sq ar) (map (\<lambda>v. f_sub ar v (np_mean ar y)) y))"

definition r2_score :: "'f arith \<Rightarrow> 'f list \<Rightarrow> 'f list \<Rightarrow> py_error + 'f" where
  "r2_score ar y yhat =
     then_do (ss_res ar y yhat) (\<lambda>sr.
     let st = ss_tot ar y in
     if eq_zero ar st then Inr (f_nan ar)
     else then_do (py_div ar sr st) (\<lambda>q. Inr (f_sub ar (f_lit ar 1) q)))"

text \<open>
  \<^verbatim>\<open>fit_through_origin\<close>. The conditional expression evaluates \<^verbatim>\<open>np.dot(x, y) / denom\<close>
  only when \<^verbatim>\<open>denom != 0\<close>; the dividend is a numpy scalar, so the division is numpy's.
\<close>

definition fit_through_origin :: "'f arith \<Rightarrow> 'f list \<Rightarrow> 'f list \<Rightarrow> py_error + ('f \<times> 'f)" where
  "fit_through_origin ar x y =
     then_do (np_dot ar x x) (\<lambda>denom.
     then_do (if \<not> eq_zero ar denom then then_do (np_dot ar x y) (\<lambda>d. Inr (f_div ar d denom))
              else Inr (f_nan ar)) (\<lambda>beta.
     let yhat = map (f_mul ar beta) x in
     then_do (r2_score ar y yhat) (\<lambda>r2. Inr (beta, r2))))"

subsection \<open>The signal synthesizer\<close>

text \<open>
  \<^verbatim>\<open>np.fft.rfftfreq(n, d=1.0)\<close> for an integer \<open>n\<close>, as numpy defines it:
  \<^verbatim>\<open>val = 1.0 / (n * d)\<close>, a division of Python floats, and then
  \<^verbatim>\<open>arange(0, n // 2 + 1) * val\<close>.
\<close>

definition rfftfreq :: "'f arith \<Rightarrow> int \<Rightarrow> py_error + 'f list" where
  "rfftfreq ar n =
     then_do (py_div ar (f_lit ar 1) (f_mul ar (f_lit ar (real_of_int n)) (f_lit ar 1))) (\<lambda>val.
       Inr (map (\<lambda>k. f_mul ar (f_lit ar (real k)) val) [0..<nat (n div 2 + 1)]))"

text \<open>
  \<^verbatim>\<open>low_freq_ratio\<close>. The transform of an empty array raises; \<^verbatim>\<open>power[freqs <= band]\<close>
  selects by a mask, which must be as long as \<^verbatim>\<open>power\<close>; \<^verbatim>\<open>num\<close> and \<^verbatim>\<open>den\<close> are
  Python floats, so the division is Python's.
\<close>

definition low_freq_ratio :: "'f arith \<Rightarrow> ('f, 'c) cplx \<Rightarrow> 'f list \<Rightarrow> 'f \<Rightarrow> py_error + 'f" where
  "low_freq_ratio ar cx x bnd =
     (if x = [] then Inl (ValueError ''Invalid number of FFT data points (0) specified.'')
      else
        let power = map (\<lambda>X. f_sq ar (c_abs cx X)) (fft_rfft cx x) in
        then_do (rfftfreq ar (int (length x))) (\<lambda>freqs.
          if length freqs \<noteq> length power then
            Inl (IndexError ''boolean index did not match indexed array'')
          else
            let num = np_sum ar (map fst (filter (\<lambda>(pw, f). f_le ar f bnd) (zip power freqs)));
                den = np_sum ar power
            in if f_lt ar (f_lit ar 0) den then py_div ar num den else Inr (f_lit ar 0)))"

text \<open>
  \<^verbatim>\<open>sign_changes_half\<close>: the signs of the first half, zeros counted as positive, and the
  number of places where neighbours differ.
\<close>

definition sign_changes_half :: "'f arith \<Rightarrow> 'f list \<Rightarrow> int" where
  "sign_changes_half ar x =
     (let half = take (length x div 2) x;
          s = map (\<lambda>v. if eq_zero ar (f_sign ar v) then f_lit ar 1 else f_sign ar v) half
      in int (length (filter (\<lambda>(a, b). \<not> f_eq ar a b) (zip (tl s) (butlast s)))))"

text \<open>\<^verbatim>\<open>Params\<close>. The field \<^verbatim>\<open>n\<close> is named \<open>par_n\<close> here.\<close>

record 'f Params =
  par_n :: int
  replicates :: int
  seed :: int
  band :: 'f
  lambda_threshold :: 'f
  mean_abs_max :: 'f
  sign_changes_min :: int
  sign_changes_max :: int
  p_spectrum :: 'f

text \<open>
  The random generator is used for one thing in \<^verbatim>\<open>generate_coherent_soft\<close>, the call
  \<^verbatim>\<open>rng.uniform(0.0, 2.0 * math.pi)\<close>. Its state is the sequence of the values these calls
  are still to return; a call returns the first and leaves the rest. Nothing is assumed
  about the values.
\<close>

type_synonym 'f rng = "nat \<Rightarrow> 'f"

definition uniform :: "'f rng \<Rightarrow> 'f \<times> 'f rng" where
  "uniform g = (g 0, \<lambda>i. g (Suc i))"

text \<open>
  \<^verbatim>\<open>amp = 1.0 / (f ** (p.p_spectrum / 2.0))\<close> with \<^verbatim>\<open>f = float(k)\<close>. The power raises
  \<^verbatim>\<open>OverflowError\<close> when its result is out of range, and the division by it is Python's;
  neither stands behind a guard. The division by the literal \<^verbatim>\<open>2.0\<close> cannot raise.
\<close>

definition amplitude :: "'f arith \<Rightarrow> 'f \<Rightarrow> nat \<Rightarrow> py_error + 'f" where
  "amplitude ar ps k =
     then_do (f_pow ar (f_lit ar (real k)) (f_div ar ps (f_lit ar 2))) (\<lambda>d.
       py_div ar (f_lit ar 1) d)"

text \<open>
  The \<^verbatim>\<open>for k in idx\<close> loop: bin \<open>k\<close> of the spectrum gets
  \<^verbatim>\<open>amp * (math.cos(phase) + 1j * math.sin(phase))\<close> for a freshly drawn phase. An index
  outside the spectrum raises.
\<close>

fun fill_spectrum ::
  "'f arith \<Rightarrow> ('f, 'c) cplx \<Rightarrow> 'f \<Rightarrow> nat list \<Rightarrow> 'c list \<Rightarrow> 'f rng \<Rightarrow> py_error + ('c list \<times> 'f rng)" where
  "fill_spectrum ar cx ps [] spec g = Inr (spec, g)"
| "fill_spectrum ar cx ps (k # ks) spec g =
     then_do (amplitude ar ps k) (\<lambda>amp.
       let (phase, g') = uniform g;
           z = c_mul cx (c_of cx amp)
                 (c_add cx (c_of cx (f_cos ar phase)) (c_mul cx (c_j cx) (c_of cx (f_sin ar phase))))
       in if k < length spec then fill_spectrum ar cx ps ks (spec[k := z]) g'
          else Inl (IndexError ''index is out of bounds''))"

text \<open>\<^verbatim>\<open>np.fft.irfft(spec, n=m)\<close>: a length of zero raises.\<close>

definition np_irfft :: "('f, 'c) cplx \<Rightarrow> 'c list \<Rightarrow> nat \<Rightarrow> py_error + 'f list" where
  "np_irfft cx spec m =
     (if m = 0 then Inl (ValueError ''Invalid number of data points (0) specified.'')
      else Inr (fft_irfft cx spec m))"

text \<open>
  The three gates on the diagnostics \<open>(lambda, mean, sign_changes_half)\<close> of a candidate.
\<close>

type_synonym 'f diagnostics = "'f \<times> 'f \<times> int"

definition gates :: "'f arith \<Rightarrow> 'f Params \<Rightarrow> 'f diagnostics \<Rightarrow> bool" where
  "gates ar p d =
     (case d of (lam, mu, sc) \<Rightarrow>
        f_le ar (lambda_threshold p) lam \<and> f_le ar (f_abs ar mu) (mean_abs_max p) \<and>
        (sign_changes_min p \<le> sc \<and> sc \<le> sign_changes_max p))"

text \<open>
  One pass through the body of \<^verbatim>\<open>while True\<close> for the half-length \<open>m\<close>: the candidate, its
  diagnostics, whether it passes the gates, and the generator after the draws; or the
  exception that ended the pass.
\<close>

definition candidate ::
  "'f arith \<Rightarrow> ('f, 'c) cplx \<Rightarrow> 'f Params \<Rightarrow> nat \<Rightarrow> nat list \<Rightarrow> 'f rng \<Rightarrow>
   py_error + ('f list \<times> 'f diagnostics \<times> bool \<times> 'f rng)" where
  "candidate ar cx p m idx g =
     then_do (fill_spectrum ar cx (p_spectrum p) idx
                (replicate (m div 2 + 1) (c_make cx (f_lit ar 0) (f_lit ar 0))) g) (\<lambda>(spec0, g').
     let spec = (if even m
                 then spec0[length spec0 - 1 := c_make cx (c_re cx (last spec0)) (f_lit ar 0)]
                 else spec0)
     in then_do (np_irfft cx spec m) (\<lambda>h.
        let x = unit_rms ar (h @ rev h) in
        then_do (low_freq_ratio ar cx x (band p)) (\<lambda>lam.
        let mu = np_mean ar x;
            sc = sign_changes_half ar x
        in Inr (x, (lam, mu, sc), gates ar p (lam, mu, sc), g'))))"

text \<open>
  The \<^verbatim>\<open>while True\<close> loop. It has no other exit than the \<^verbatim>\<open>return\<close> of an accepted
  candidate or an exception, so the model is a partial function: \<open>None\<close> is a run that never
  returns.
\<close>

partial_function (option) accept_loop ::
  "'f arith \<Rightarrow> ('f, 'c) cplx \<Rightarrow> 'f Params \<Rightarrow> nat \<Rightarrow> nat list \<Rightarrow> 'f rng \<Rightarrow>
   (py_error + ('f list \<times> 'f diagnostics \<times> 'f rng)) option" where
  "accept_loop ar cx p m idx g =
     (case candidate ar cx p m idx g of
        Inl e \<Rightarrow> Some (Inl e)
      | Inr (x, d, ok, g') \<Rightarrow>
          if ok then Some (Inr (x, d, g')) else accept_loop ar cx p m idx g')"

text \<open>
  \<^verbatim>\<open>idx\<close>, the bins of the half-length whose frequency is positive and at most the band,
  and \<^verbatim>\<open>generate_coherent_soft\<close>.
\<close>

definition freq_bins :: "'f arith \<Rightarrow> 'f Params \<Rightarrow> 'f list \<Rightarrow> nat list" where
  "freq_bins ar p freqs_m =
     filter (\<lambda>k. f_lt ar (f_lit ar 0) (freqs_m ! k) \<and> f_le ar (freqs_m ! k) (band p))
            [0..<length freqs_m]"

definition generate_coherent_soft ::
  "'f arith \<Rightarrow> ('f, 'c) cplx \<Rightarrow> 'f rng \<Rightarrow> 'f Params \<Rightarrow>
   (py_error + ('f list \<times> 'f diagnostics \<times> 'f rng)) option" where
  "generate_coherent_soft ar cx g p =
     (let m = par_n p div 2 in
      case rfftfreq ar m of
        Inl e \<Rightarrow> Some (Inl e)
      | Inr freqs_m \<Rightarrow>
          let idx = freq_bins ar p freqs_m in
          if idx = [] then Some (Inl (RuntimeError ''band too small; no frequency bins available''))
          else accept_loop ar cx p (nat m) idx g)"

text \<open>
  The notions in which a run of the loop is described: a pass ends in a rejection when it
  raises nothing and its candidate fails a gate; \<open>redraw\<close> is the generator after a pass.
\<close>

definition rejected :: "'f arith \<Rightarrow> ('f, 'c) cplx \<Rightarrow> 'f Params \<Rightarrow> nat \<Rightarrow> nat list \<Rightarrow> 'f rng \<Rightarrow> bool" where
  "rejected ar cx p m idx g =
     (case candidate ar cx p m idx g of Inl e \<Rightarrow> False | Inr (x, d, ok, g') \<Rightarrow> \<not> ok)"

definition redraw :: "'f arith \<Rightarrow> ('f, 'c) cplx \<Rightarrow> 'f Params \<Rightarrow> nat \<Rightarrow> nat list \<Rightarrow> 'f rng \<Rightarrow> 'f rng" where
  "redraw ar cx p m idx g =
     (case candidate ar cx p m idx g of Inl e \<Rightarrow> g | Inr (x, d, ok, g') \<Rightarrow> g')"

subsection \<open>Per-replicate fit records and their summary\<close>

text \<open>
  A row of \<^verbatim>\<open>df_fit\<close>. The intercept fit's columns (\<^verbatim>\<open>slope\<close>, \<^verbatim>\<open>intercept\<close>,
  \<^verbatim>\<open>r2\<close>) come from \<^verbatim>\<open>np.linalg.lstsq\<close> and are carried as given values.
\<close>

record 'f fit_record =
  fr_condition :: string
  fr_replicate :: nat
  beta_origin :: 'f
  r2_origin :: 'f
  slope :: 'f
  intercept :: 'f
  r2 :: 'f
  E0 :: 'f
  beta_origin_delta :: 'f
  r2_origin_delta :: 'f

text \<open>
  The two reductions of \<^verbatim>\<open>groupby(...).agg\<close>, as pandas defines them: \<^verbatim>\<open>"mean"\<close> and
  \<^verbatim>\<open>"std"\<close> skip the NaN entries of a column; the mean of no value is NaN; the standard
  deviation has one delta degree of freedom (\<^verbatim>\<open>ddof=1\<close>, the divisor is the count minus
  one) and is NaN unless the count exceeds it.
\<close>

definition dropna :: "'f arith \<Rightarrow> 'f list \<Rightarrow> 'f list" where
  "dropna ar col = filter (\<lambda>v. \<not> f_isnan ar v) col"

definition agg_mean :: "'f arith \<Rightarrow> 'f list \<Rightarrow> 'f" where
  "agg_mean ar col =
     (let v = dropna ar col in
      if v = [] then f_nan ar else pd_mean ar v)"

definition agg_std :: "'f arith \<Rightarrow> 'f list \<Rightarrow> 'f" where
  "agg_std ar col =
     (let v = dropna ar col;
          ddof = 1
      in if length v \<le> ddof then f_nan ar else pd_std ar ddof v)"

text \<open>The names of the summary's columns, in the order of the \<^verbatim>\<open>agg\<close> call.\<close>

definition summary_stats :: "'f arith \<Rightarrow> 'f fit_record list \<Rightarrow> (string \<times> 'f) list" where
  "summary_stats ar g =
     [(''beta_origin_mean'', agg_mean ar (map beta_origin g)),
      (''beta_origin_std'', agg_std ar (map beta_origin g)),
      (''r2_origin_mean'', agg_mean ar (map r2_origin g)),
      (''r2_origin_std'', agg_std ar (map r2_origin g)),
      (''slope_mean'', agg_mean ar (map slope g)),
      (''slope_std'', agg_std ar (map slope g)),
      (''intercept_mean'', agg_mean ar (map intercept g)),
      (''intercept_std'', agg_std ar (map intercept g)),
      (''r2_mean'', agg_mean ar (map r2 g)),
      (''r2_std'', agg_std ar (map r2 g)),
      (''E0_mean'', agg_mean ar (map E0 g)),
      (''E0_std'', agg_std ar (map E0 g)),
      (''beta_origin_delta_mean'', agg_mean ar (map beta_origin_delta g)),
      (''beta_origin_delta_std'', agg_std ar (map beta_origin_delta g)),
      (''r2_origin_delta_mean'', agg_mean ar (map r2_origin_delta g)),
      (''r2_origin_delta_std'', agg_std ar (map r2_origin_delta g))]"

text \<open>
  A row of a fit summary table: its condition name and its numeric columns by name. The
  table is the list of its rows.
\<close>

record 'f fit_row =
  condition :: string
  stats :: "string \<rightharpoonup> 'f"

type_synonym 'f dataframe = "'f fit_row list"

text \<open>
  The summary table \<^verbatim>\<open>df_fit_summary\<close>: one row per condition, in sorted order, holding the
  reductions of that condition's records.
\<close>

definition fit_summary :: "'f arith \<Rightarrow> 'f fit_record list \<Rightarrow> 'f dataframe" where
  "fit_summary ar recs =
     map (\<lambda>c. \<lparr> condition = c,
                stats = map_of (summary_stats ar (filter (\<lambda>r. fr_condition r = c) recs)) \<rparr>)
         (sort (remdups (map fr_condition recs)))"

text \<open>The condition names under which \<^verbatim>\<open>main\<close> appends its rows.\<close>

definition engine_conditions :: "string list" where
  "engine_conditions =
     [''coherent_soft'',
      ''coherent_soft_noise_sigma0.05'', ''coherent_soft_noise_sigma0.10'',
      ''coherent_soft_noise_sigma0.30'',
      ''coherent_bin'',
      ''coherent_bin_bitflip_p0.01'', ''coherent_bin_bitflip_p0.02'',
      ''coherent_bin_bitflip_p0.05'', ''coherent_bin_bitflip_p0.10'',
      ''random_bin'', ''palindrome_bin_no_coherence'']"

text \<open>
  The end of the engine's \<^verbatim>\<open>main\<close>. The module's global names are those its import
  statements bind and those it defines itself; building the run log's \<^verbatim>\<open>meta\<close> dict and
  writing it evaluates the global names below, in this order, and a name that is neither
  bound in the module nor a builtin raises \<^verbatim>\<open>NameError\<close>. \<open>engine_main\<close> takes the
  outcome of everything before the run log as its argument.
\<close>

definition engine_globals :: "string list" where
  "engine_globals =
     [''annotations'', ''argparse'', ''math'', ''os'', ''platform'', ''dataclass'', ''datetime'',
      ''timezone'', ''np'', ''pd'',
      ''Params'', ''unit_rms'', ''low_freq_ratio'', ''sign_changes_half'',
      ''generate_coherent_soft'', ''to_bin'', ''corr_mean'', ''r2_score'', ''fit_through_origin'',
      ''fit_with_intercept'', ''main'']"

fun eval_names :: "string list \<Rightarrow> string list \<Rightarrow> py_error + unit" where
  "eval_names bound [] = Inr ()"
| "eval_names bound (v # vs) =
     (if v \<in> set bound then eval_names bound vs else Inl (NameError v))"

definition runlog_names :: "string list" where
  "runlog_names = [''datetime'', ''timezone'', ''sys'', ''platform'', ''np'', ''pd'', ''json'']"

definition engine_main :: "py_error + unit \<Rightarrow> py_error + unit" where
  "engine_main before = then_do before (\<lambda>u. eval_names engine_globals runlog_names)"

section \<open>The verdict engine (run\_experiment.py)\<close>

text \<open>
  The fit summary table is read back with \<^verbatim>\<open>pd.read_csv\<close>. The reference baseline is a
  dict of dicts, as \<^verbatim>\<open>json.loads\<close> returns it. The constants are the floats of their
  literals.
\<close>

type_synonym 'f reference = "string \<rightharpoonup> (string \<rightharpoonup> 'f)"

definition TOL :: "'f arith \<Rightarrow> (string \<times> 'f) list" where
  "TOL ar = [(''R2_mean_abs'', f_lit ar (5 / 100)), (''R2_std_abs'', f_lit ar (3 / 100)),
             (''beta_origin_mean_rel'', f_lit ar (12 / 100)),
             (''R2_origin_mean_abs'', f_lit ar (20 / 100))]"

definition NEG_CONTROL :: "'f arith \<Rightarrow> (string \<times> 'f) list" where
  "NEG_CONTROL ar =
     [(''R2_mean_max'', f_lit ar (20 / 100)), (''R2_origin_mean_max'', f_lit ar (20 / 100))]"

text \<open>\<^verbatim>\<open>TOL[k]\<close> and \<^verbatim>\<open>NEG_CONTROL[k]\<close>: lookups in the constant tables.\<close>

definition const_item :: "(string \<times> 'f) list \<Rightarrow> string \<Rightarrow> py_error + 'f" where
  "const_item tbl k = getitem (map_of tbl) k"

text \<open>
  The source's \<^verbatim>\<open>within\<close> is named \<open>within_tol\<close> here (\<open>within\<close> is reserved syntax). Its
  operands are Python floats, so the division of the relative comparison is Python's.
\<close>

definition within_tol :: "'f arith \<Rightarrow> 'f \<Rightarrow> 'f \<Rightarrow> 'f option \<Rightarrow> 'f option \<Rightarrow> py_error + bool" where
  "within_tol ar val ref abs_tol rel_tol =
     (case abs_tol of
        Some a \<Rightarrow> Inr (f_le ar (f_abs ar (f_sub ar val ref)) a)
      | None \<Rightarrow>
         (case rel_tol of
            Some t \<Rightarrow>
              (if eq_zero ar ref then Inr (f_le ar (f_abs ar val) t)
               else then_do (py_div ar (f_abs ar (f_sub ar val ref)) (f_abs ar ref))
                      (\<lambda>q. Inr (f_le ar q t)))
          | None \<Rightarrow> Inl (ValueError ''Need abs_tol or rel_tol'')))"

text \<open>The files \<^verbatim>\<open>compute_verdict\<close> reads and writes are each absent or hold a value.\<close>

record 'f verdict_details =
  verdict :: string
  tolerances :: "(string \<times> (string \<times> 'f) list) list"
  checks :: "(string \<times> bool) list"
  measured :: "(string \<times> 'f fit_row) list"
  reference_used :: "(string \<times> (string \<rightharpoonup> 'f)) list"

record 'f kit_files =
  fit_summary_csv :: "'f dataframe option"
  reference_json :: "'f reference option"
  verdict_txt :: "string option"
  verdict_details_json :: "'f verdict_details option"

definition load_fit_summary :: "'f kit_files \<Rightarrow> py_error + 'f dataframe" where
  "load_fit_summary fs =
     (case fit_summary_csv fs of
        None \<Rightarrow> Inl (FileNotFoundError ''Missing fit_summary_by_condition.csv in paper_ready/tables/'')
      | Some df \<Rightarrow> Inr df)"

definition load_reference :: "'f kit_files \<Rightarrow> py_error + 'f reference" where
  "load_reference fs =
     (case reference_json fs of
        None \<Rightarrow> Inl (FileNotFoundError ''Missing reference_metrics_v6_2.json'')
      | Some r \<Rightarrow> Inr r)"

definition row :: "'f dataframe \<Rightarrow> string \<Rightarrow> py_error + 'f fit_row" where
  "row df cond =
     (case filter (\<lambda>r. condition r = cond) df of
        [r] \<Rightarrow> Inr r
      | _ \<Rightarrow> Inl (ValueError (''Condition not found or ambiguous: '' @ cond)))"

text \<open>One reference-matching check: both values are looked up, then compared.\<close>

definition ref_check ::
  "'f arith \<Rightarrow> 'f fit_row \<Rightarrow> (string \<rightharpoonup> 'f) \<Rightarrow> string \<Rightarrow> string \<Rightarrow> bool \<Rightarrow> py_error + bool" where
  "ref_check ar clean ref_clean key tol_key relative =
     then_do (getitem (stats clean) key) (\<lambda>v.
     then_do (getitem ref_clean key) (\<lambda>r.
     then_do (const_item (TOL ar) tol_key) (\<lambda>t.
       if relative then within_tol ar v r None (Some t) else within_tol ar v r (Some t) None)))"

text \<open>One negative-control check: the control's value must not exceed the ceiling.\<close>

definition control_check :: "'f arith \<Rightarrow> 'f fit_row \<Rightarrow> string \<Rightarrow> string \<Rightarrow> py_error + bool" where
  "control_check ar ctl key max_key =
     then_do (getitem (stats ctl) key) (\<lambda>v.
     then_do (const_item (NEG_CONTROL ar) max_key) (\<lambda>m. Inr (f_le ar v m)))"

definition verdict_checks ::
  "'f arith \<Rightarrow> 'f fit_row \<Rightarrow> 'f fit_row \<Rightarrow> 'f fit_row \<Rightarrow> (string \<rightharpoonup> 'f) \<Rightarrow>
   py_error + (string \<times> bool) list" where
  "verdict_checks ar clean rand pal ref_clean =
     then_do (ref_check ar clean ref_clean ''R2_mean'' ''R2_mean_abs'' False) (\<lambda>c1.
     then_do (ref_check ar clean ref_clean ''R2_std'' ''R2_std_abs'' False) (\<lambda>c2.
     then_do (ref_check ar clean ref_clean ''beta_origin_mean'' ''beta_origin_mean_rel'' True) (\<lambda>c3.
     then_do (ref_check ar clean ref_clean ''R2_origin_mean'' ''R2_origin_mean_abs'' False) (\<lambda>c4.
     then_do (control_check ar rand ''R2_mean'' ''R2_mean_max'') (\<lambda>c5.
     then_do (control_check ar rand ''R2_origin_mean'' ''R2_origin_mean_max'') (\<lambda>c6.
     then_do (control_check ar pal ''R2_mean'' ''R2_mean_max'') (\<lambda>c7.
     then_do (control_check ar pal ''R2_origin_mean'' ''R2_origin_mean_max'') (\<lambda>c8.
       Inr [(''clean.R2_mean'', c1), (''clean.R2_std'', c2),
            (''clean.beta_origin_mean'', c3), (''clean.R2_origin_mean'', c4),
            (''random.R2_mean_fail'', c5), (''random.R2_origin_mean_fail'', c6),
            (''palindrome.R2_mean_fail'', c7), (''palindrome.R2_origin_mean_fail'', c8)]))))))))"

text \<open>
  \<^verbatim>\<open>compute_verdict\<close>: the result, and the files after the call. An exception leaves
  the files as they were; the two verdict files are written last. The constant provenance
  entries of the details (\<^verbatim>\<open>dois\<close>, \<^verbatim>\<open>repo\<close>) carry no computed value and are left out.
\<close>

definition compute_details :: "'f arith \<Rightarrow> 'f kit_files \<Rightarrow> py_error + 'f verdict_details" where
  "compute_details ar fs =
     then_do (load_fit_summary fs) (\<lambda>df.
     then_do (load_reference fs) (\<lambda>ref.
     then_do (row df ''coherent_bin_clean'') (\<lambda>clean.
     then_do (row df ''random_bin'') (\<lambda>rand.
     then_do (row df ''palindrome_bin_no_coherence'') (\<lambda>pal.
     then_do (getitem ref ''coherent_bin_clean'') (\<lambda>ref_clean.
     then_do (verdict_checks ar clean rand pal ref_clean) (\<lambda>cs.
       Inr \<lparr> verdict = (if list_all snd cs then ''PASS'' else ''FAIL''),
             tolerances = [(''TOL'', TOL ar), (''NEG_CONTROL'', NEG_CONTROL ar)],
             checks = cs,
             measured = [(''coherent_bin_clean'', clean), (''random_bin'', rand),
                         (''palindrome_bin_no_coherence'', pal)],
             reference_used = [(''coherent_bin_clean'', ref_clean)] \<rparr>)))))))"

definition compute_verdict ::
  "'f arith \<Rightarrow> 'f kit_files \<Rightarrow> (py_error + 'f verdict_details) \<times> 'f kit_files" where
  "compute_verdict ar fs =
     (case compute_details ar fs of
        Inl e \<Rightarrow> (Inl e, fs)
      | Inr d \<Rightarrow>
          (Inr d, fs\<lparr> verdict_txt := Some (verdict d @ [CHR 0x0A]),
                      verdict_details_json := Some d \<rparr>))"

text \<open>
  \<^verbatim>\<open>run_v6_2_engine\<close> and \<^verbatim>\<open>main\<close> of the student runner. The engine runs as a
  subprocess: its return code is non-zero exactly when it ended in an exception. The path
  \<open>code\<close> that the runner builds for the engine's file, and whether a file exists there, are
  arguments; the files are taken as \<^verbatim>\<open>copy_outputs\<close> leaves them.
\<close>

definition run_v6_2_engine :: "string \<Rightarrow> bool \<Rightarrow> py_error + unit \<Rightarrow> py_error + unit" where
  "run_v6_2_engine code code_exists engine_result =
     (if \<not> code_exists then Inl (FileNotFoundError (''Missing v6.2 engine at: '' @ code))
      else (case engine_result of
              Inl e \<Rightarrow> Inl (RuntimeError ''v6.2 engine execution failed. See paper_ready/engine_stderr.txt'')
            | Inr u \<Rightarrow> Inr ()))"

definition student_main ::
  "'f arith \<Rightarrow> string \<Rightarrow> bool \<Rightarrow> py_error + unit \<Rightarrow> 'f kit_files \<Rightarrow>
   (py_error + 'f verdict_details) \<times> 'f kit_files" where
  "student_main ar code code_exists before fs =
     (case run_v6_2_engine code code_exists (engine_main before) of
        Inl e \<Rightarrow> (Inl e, fs)
      | Inr u \<Rightarrow> compute_verdict ar fs)"

section \<open>The reference-comparison checker (tools/check\_official\_replication.py)\<close>

text \<open>
  The content of \<^verbatim>\<open>verdict_details.json\<close> as \<^verbatim>\<open>json.loads\<close> returns it. A number is
  an \<^verbatim>\<open>int\<close> or a \<^verbatim>\<open>float\<close>, given by its value; the three floats without one (NaN and
  the infinities, which \<^verbatim>\<open>json.loads\<close> accepts) are given by their spelling. A Python
  dict is an association list read with \<open>map_of\<close>.
\<close>

datatype json =
    JNull
  | JBool bool
  | JInt int
  | JFloat real
  | JNonfinite string
  | JStr string
  | JArr "json list"
  | JObj "(string \<times> json) list"

text \<open>Python's truth value of a parsed JSON value, as \<^verbatim>\<open>or\<close> and \<^verbatim>\<open>not\<close> read it.\<close>

fun truthy :: "json \<Rightarrow> bool" where
  "truthy JNull = False"
| "truthy (JBool b) = b"
| "truthy (JInt i) = (i \<noteq> 0)"
| "truthy (JFloat r) = (r \<noteq> 0)"
| "truthy (JNonfinite s) = True"
| "truthy (JStr s) = (s \<noteq> [])"
| "truthy (JArr xs) = (xs \<noteq> [])"
| "truthy (JObj kvs) = (kvs \<noteq> [])"

text \<open>
  \<^verbatim>\<open>verdict.get(k)\<close>: the value, \<^verbatim>\<open>None\<close> for a missing key; a parsed value that is
  not a dict has no \<^verbatim>\<open>get\<close> and the call raises \<^verbatim>\<open>AttributeError\<close>, which the
  checker does not catch.
\<close>

definition dict_get :: "json \<Rightarrow> string \<Rightarrow> py_error + json" where
  "dict_get v k =
     (case v of
        JObj kvs \<Rightarrow> Inr (case map_of kvs k of None \<Rightarrow> JNull | Some x \<Rightarrow> x)
      | _ \<Rightarrow> Inl (AttributeError ''get''))"

text \<open>\<^verbatim>\<open>a or b\<close>: \<open>b\<close> is evaluated only when \<open>a\<close> is falsy.\<close>

definition py_or :: "json \<Rightarrow> (py_error + json) \<Rightarrow> py_error + json" where
  "py_or a b = (if truthy a then Inr a else b)"

definition extract_status :: "json \<Rightarrow> py_error + json" where
  "extract_status v =
     then_do (dict_get v ''status'') (\<lambda>a. py_or a (
     then_do (dict_get v ''verdict'') (\<lambda>b. py_or b (
     then_do (dict_get v ''overall'') (\<lambda>c. py_or c (
     dict_get v ''result''))))))"

text \<open>
  \<^verbatim>\<open>str(status)\<close>: a string is itself; the text of any other value is Python's own
  formatting, taken as the parameter \<open>repr\<close>. \<^verbatim>\<open>s.upper()\<close> is Python's, which maps every
  cased character of Unicode and may change the length of the text; it is the parameter
  \<open>upper\<close> of the definitions below. \<open>str_contains s sub\<close> is \<^verbatim>\<open>sub in s\<close>.
\<close>

definition py_str :: "(json \<Rightarrow> string) \<Rightarrow> json \<Rightarrow> string" where
  "py_str repr v = (case v of JStr s \<Rightarrow> s | _ \<Rightarrow> repr v)"

fun str_contains :: "string \<Rightarrow> string \<Rightarrow> bool" where
  "str_contains [] sub = (sub = [])"
| "str_contains (c # cs) sub = (prefix sub (c # cs) \<or> str_contains cs sub)"

definition REQUIRED :: "string list" where
  "REQUIRED = [''verdict_details.json'', ''run_manifest.json'', ''hashes.txt'',
               ''tables/fit_summary_by_condition.csv'']"

definition EXPECTED_CONDITIONS :: "string list" where
  "EXPECTED_CONDITIONS = [''coherent_bin_clean'', ''random_bin'', ''palindrome_bin_no_coherence'']"

text \<open>
  What the checker sees at the path of its argument: whether it is a directory, which
  relative paths exist in it, what \<^verbatim>\<open>json.loads\<close> makes of \<^verbatim>\<open>verdict_details.json\<close>
  (\<open>Inl\<close> holds the message of the exception that reading or parsing raised, which the
  checker catches) and what reading the summary table gives: its text, or the exception of
  \<^verbatim>\<open>read_text\<close>, which the checker does not catch.
\<close>

record checked_dir =
  is_directory :: bool
  file_exists :: "string \<Rightarrow> bool"
  verdict_parsed :: "string + json"
  csv_text :: "py_error + string"

text \<open>The last lines of \<^verbatim>\<open>main\<close>: the token printed for an extracted status.\<close>

definition report_status ::
  "(string \<Rightarrow> string) \<Rightarrow> (json \<Rightarrow> string) \<Rightarrow> json \<Rightarrow> string list \<times> int" where
  "report_status upper repr status =
     (let s = upper (py_str repr status) in
      if str_contains s ''PASS'' then ([''OFFICIAL_REPLICATION_PASS''], 0)
      else if str_contains s ''FAIL'' then ([''OFFICIAL_REPLICATION_FAIL''], 0)
      else ([''OFFICIAL_REPLICATION (status='' @ py_str repr status @ '')''], 0))"

text \<open>
  \<^verbatim>\<open>main\<close> of the checker: the lines it prints and its return code, or the exception it
  ends in.
\<close>

definition check_main ::
  "(string \<Rightarrow> string) \<Rightarrow> (json \<Rightarrow> string) \<Rightarrow> string list \<Rightarrow> checked_dir \<Rightarrow>
   py_error + (string list \<times> int)" where
  "check_main upper repr argv base =
     (if length argv \<noteq> 2 then
        Inr ([''Usage: python tools/check_official_replication.py <paper_ready_dir>''], 2)
      else if \<not> is_directory base then
        Inr ([''NOT_COMPARABLE (paper_ready directory not found)''], 1)
      else
        (case filter (\<lambda>rel. \<not> file_exists base rel) REQUIRED of
           m # ms \<Rightarrow>
             Inr (''NOT_COMPARABLE (missing required files):'' # map (\<lambda>m. '' - '' @ m) (m # ms), 1)
         | [] \<Rightarrow>
            (case verdict_parsed base of
               Inl e \<Rightarrow> Inr ([''NOT_COMPARABLE (cannot parse verdict_details.json): '' @ e], 1)
             | Inr v \<Rightarrow>
                 then_do (extract_status v) (\<lambda>status.
                   if \<not> truthy status then
                     Inr ([''NOT_COMPARABLE (no status/verdict field in verdict_details.json)''], 1)
                   else
                     then_do (csv_text base) (\<lambda>text.
                       (case List.find (\<lambda>cond. \<not> str_contains text cond) EXPECTED_CONDITIONS of
                          Some cond \<Rightarrow>
                            Inr ([''NOT_COMPARABLE (missing condition in fit_summary_by_condition.csv): ''
                                  @ cond], 1)
                        | None \<Rightarrow> Inr (report_status upper repr status)))))))"

text \<open>
  The status in words, written independently of \<open>extract_status\<close> to be compared with
  it: the first truthy value found under the four field names, in their order.
\<close>

definition status_fields :: "string list" where
  "status_fields = [''status'', ''verdict'', ''overall'', ''result'']"

definition first_truthy_field :: "(string \<times> json) list \<Rightarrow> json option" where
  "first_truthy_field kvs =
     List.find truthy (List.map_filter (map_of kvs) status_fields)"


section \<open>An arithmetic without rounding, and example inputs\<close>

text \<open>
  One arithmetic among those the definitions range over: a float is a real number or NaN,
  and every operation returns the exact result. It is not the arithmetic of the program, and
  no general statement is made about it. It serves to evaluate the definitions at concrete
  inputs, and it is applied only where binary floating point gives the same outcome. On
  these inputs all values, and all values computed from them, are integers or small dyadic
  fractions, which binary floating point computes exactly too, whatever the order of the
  additions; the decimal constants of the source (0.05, 0.2 and the like) meet such values
  only in comparisons that are far from equality; and the one run of the rejection loop that
  is evaluated has an outcome that depends on no computed value. NaN propagates through
  every operation and every comparison with it is false; a quotient by zero, which no
  evaluation below meets, is NaN.
\<close>

datatype pyfloat = Fin real | NaN

fun fadd :: "pyfloat \<Rightarrow> pyfloat \<Rightarrow> pyfloat" where
  "fadd (Fin a) (Fin b) = Fin (a + b)"
| "fadd _ _ = NaN"

fun fsub :: "pyfloat \<Rightarrow> pyfloat \<Rightarrow> pyfloat" where
  "fsub (Fin a) (Fin b) = Fin (a - b)"
| "fsub _ _ = NaN"

fun fmul :: "pyfloat \<Rightarrow> pyfloat \<Rightarrow> pyfloat" where
  "fmul (Fin a) (Fin b) = Fin (a * b)"
| "fmul _ _ = NaN"

fun fdiv :: "pyfloat \<Rightarrow> pyfloat \<Rightarrow> pyfloat" where
  "fdiv (Fin a) (Fin b) = (if b = 0 then NaN else Fin (a / b))"
| "fdiv _ _ = NaN"

fun fpow :: "pyfloat \<Rightarrow> pyfloat \<Rightarrow> py_error + pyfloat" where
  "fpow (Fin a) (Fin b) = (if a = 0 \<and> b < 0 then Inl ZeroDivisionError else Inr (Fin (a powr b)))"
| "fpow _ _ = Inr NaN"

fun fabs :: "pyfloat \<Rightarrow> pyfloat" where
  "fabs (Fin a) = Fin \<bar>a\<bar>"
| "fabs NaN = NaN"

fun fsqrt :: "pyfloat \<Rightarrow> pyfloat" where
  "fsqrt (Fin a) = (if a < 0 then NaN else Fin (sqrt a))"
| "fsqrt NaN = NaN"

fun fmap :: "(real \<Rightarrow> real) \<Rightarrow> pyfloat \<Rightarrow> pyfloat" where
  "fmap h (Fin a) = Fin (h a)"
| "fmap h NaN = NaN"

fun fle :: "pyfloat \<Rightarrow> pyfloat \<Rightarrow> bool" where
  "fle (Fin a) (Fin b) = (a \<le> b)"
| "fle _ _ = False"

fun flt :: "pyfloat \<Rightarrow> pyfloat \<Rightarrow> bool" where
  "flt (Fin a) (Fin b) = (a < b)"
| "flt _ _ = False"

fun feq :: "pyfloat \<Rightarrow> pyfloat \<Rightarrow> bool" where
  "feq (Fin a) (Fin b) = (a = b)"
| "feq _ _ = False"

fun fisnan :: "pyfloat \<Rightarrow> bool" where
  "fisnan (Fin a) = False"
| "fisnan NaN = True"

definition fsum :: "pyfloat list \<Rightarrow> pyfloat" where
  "fsum xs = foldr fadd xs (Fin 0)"

definition fmean :: "pyfloat list \<Rightarrow> pyfloat" where
  "fmean xs = (if xs = [] then NaN else fdiv (fsum xs) (Fin (real (length xs))))"

definition fdot :: "pyfloat list \<Rightarrow> pyfloat list \<Rightarrow> pyfloat" where
  "fdot xs ys = fsum (map2 fmul xs ys)"

definition fstd :: "nat \<Rightarrow> pyfloat list \<Rightarrow> pyfloat" where
  "fstd ddof xs =
     fsqrt (fdiv (fsum (map (\<lambda>a. fmul (fsub a (fmean xs)) (fsub a (fmean xs))) xs))
                 (Fin (real (length xs - ddof))))"

definition exact :: "pyfloat arith" where
  "exact = \<lparr> f_lit = Fin, f_nan = NaN, f_sub = fsub, f_mul = fmul, f_div = fdiv,
     f_sq = (\<lambda>v. fmul v v), f_pow = fpow, f_abs = fabs, f_sqrt = fsqrt,
     f_cos = fmap cos, f_sin = fmap sin, f_sign = fmap sgn,
     f_le = fle, f_lt = flt, f_eq = feq, f_isnan = fisnan,
     np_sum = fsum, np_mean = fmean, np_dot_aligned = fdot, pd_mean = fmean, pd_std = fstd \<rparr>"

text \<open>
  The complex numbers of this arithmetic are pairs, and the two transforms are the discrete
  Fourier sums: bin \<open>k\<close> of the transform of \<open>n\<close> values is the sum of \<open>x\<^sub>j\<close> times
  \<open>exp (- 2 \<pi> i j k / n)\<close>, and the inverse of a spectrum of \<open>m div 2 + 1\<close> bins is the real
  sequence of length \<open>m\<close> with these bins and their conjugates.
\<close>

type_synonym pycomplex = "pyfloat \<times> pyfloat"

definition cadd :: "pycomplex \<Rightarrow> pycomplex \<Rightarrow> pycomplex" where
  "cadd z w = (fadd (fst z) (fst w), fadd (snd z) (snd w))"

definition cmul :: "pycomplex \<Rightarrow> pycomplex \<Rightarrow> pycomplex" where
  "cmul z w = (fsub (fmul (fst z) (fst w)) (fmul (snd z) (snd w)),
               fadd (fmul (fst z) (snd w)) (fmul (snd z) (fst w)))"

definition cabs :: "pycomplex \<Rightarrow> pyfloat" where
  "cabs z = fsqrt (fadd (fmul (fst z) (fst z)) (fmul (snd z) (snd z)))"

definition rfft_bin :: "pyfloat list \<Rightarrow> nat \<Rightarrow> pycomplex" where
  "rfft_bin x k =
     (let n = length x
      in (fsum (map2 (\<lambda>v j. fmul v (Fin (cos (2 * pi * real j * real k / real n)))) x [0..<n]),
          fsum (map2 (\<lambda>v j. fmul v (Fin (- sin (2 * pi * real j * real k / real n)))) x [0..<n])))"

definition rfft :: "pyfloat list \<Rightarrow> pycomplex list" where
  "rfft x = map (rfft_bin x) [0..<length x div 2 + 1]"

definition irfft_at :: "pycomplex list \<Rightarrow> nat \<Rightarrow> nat \<Rightarrow> pyfloat" where
  "irfft_at spec m j =
     fdiv (fadd (fadd (fst (spec ! 0))
                  (fsum (map (\<lambda>k. fmul (Fin 2)
                               (fsub (fmul (fst (spec ! k)) (Fin (cos (2 * pi * real j * real k / real m))))
                                     (fmul (snd (spec ! k)) (Fin (sin (2 * pi * real j * real k / real m))))))
                             [1..<(m + 1) div 2])))
                (if even m then fmul (fst (spec ! (m div 2))) (Fin (cos (pi * real j))) else Fin 0))
          (Fin (real m))"

definition irfft :: "pycomplex list \<Rightarrow> nat \<Rightarrow> pyfloat list" where
  "irfft spec m = map (irfft_at spec m) [0..<m]"

definition exact_cx :: "(pyfloat, pycomplex) cplx" where
  "exact_cx = \<lparr> c_make = Pair, c_of = (\<lambda>v. (v, Fin 0)), c_j = (Fin 0, Fin 1),
     c_add = cadd, c_mul = cmul, c_re = fst, c_abs = cabs, fft_rfft = rfft, fft_irfft = irfft \<rparr>"


text \<open>Example inputs, used where a theorem is applied to a concrete case.\<close>

definition example_stats :: "real \<Rightarrow> real \<Rightarrow> real \<Rightarrow> real \<Rightarrow> string \<rightharpoonup> pyfloat" where
  "example_stats a b c d =
     map_of [(''R2_mean'', Fin a), (''R2_std'', Fin b), (''beta_origin_mean'', Fin c),
             (''R2_origin_mean'', Fin d)]"

definition example_table :: "pyfloat dataframe" where
  "example_table =
     [\<lparr> condition = ''coherent_bin_clean'', stats = example_stats 1 (1 / 4) 1 (1 / 2) \<rparr>,
      \<lparr> condition = ''random_bin'', stats = example_stats 0 (1 / 4) 0 (- 3) \<rparr>,
      \<lparr> condition = ''palindrome_bin_no_coherence'', stats = example_stats 0 (1 / 4) 0 (- 2) \<rparr>]"

definition example_files :: "real \<Rightarrow> pyfloat dataframe \<Rightarrow> pyfloat kit_files" where
  "example_files ref_slope df =
     \<lparr> fit_summary_csv = Some df,
       reference_json = Some [''coherent_bin_clean'' \<mapsto> example_stats 1 (1 / 4) ref_slope (1 / 2)],
       verdict_txt = None, verdict_details_json = None \<rparr>"



definition example_records :: "pyfloat fit_record list" where
  "example_records =
     map (\<lambda>c. \<lparr> fr_condition = c, fr_replicate = 0, beta_origin = Fin 1, r2_origin = Fin 1,
                slope = Fin 1, intercept = Fin 0, r2 = Fin 1, E0 = Fin 0,
                beta_origin_delta = Fin 1, r2_origin_delta = Fin 1 \<rparr>)
         [''coherent_bin'', ''random_bin'', ''palindrome_bin_no_coherence'']"

definition example_params :: "pyfloat Params" where
  "example_params = \<lparr> par_n = 4, replicates = 1, seed = 42, band = Fin (1 / 2),
      lambda_threshold = Fin (3 / 4), mean_abs_max = Fin (1 / 8), sign_changes_min = 3,
      sign_changes_max = 2, p_spectrum = Fin 2 \<rparr>"

section \<open>Properties\<close>

subsection \<open>Sequencing, lookups and the exact arithmetic\<close>

lemma then_do_Inr_iff: "then_do m f = Inr y \<longleftrightarrow> (\<exists>v. m = Inr v \<and> f v = Inr y)"
  by (cases m) (simp_all add: then_do_def)

lemma then_do_Inr [simp]: "then_do (Inr v) f = f v"
  by (simp add: then_do_def)

lemma then_do_Inl [simp]: "then_do (Inl e) f = Inl e"
  by (simp add: then_do_def)


lemma py_div_guarded: "\<not> eq_zero ar b \<Longrightarrow> py_div ar a b = Inr (f_div ar a b)"
  by (simp add: py_div_def)


lemma row_Inr_iff: "row df c = Inr r \<longleftrightarrow> filter (\<lambda>r. condition r = c) df = [r]"
  by (auto simp: row_def split: list.splits)

lemma row_Inl:
  "length (filter (\<lambda>r. condition r = c) df) \<noteq> 1 \<Longrightarrow>
   row df c = Inl (ValueError (''Condition not found or ambiguous: '' @ c))"
  by (auto simp: row_def split: list.splits)

lemma exact_sel:
  "f_lit exact = Fin" "f_nan exact = NaN" "f_sub exact = fsub"
  "f_mul exact = fmul" "f_div exact = fdiv" "f_sq exact = (\<lambda>v. fmul v v)" "f_pow exact = fpow"
  "f_abs exact = fabs" "f_sqrt exact = fsqrt" "f_cos exact = fmap cos" "f_sin exact = fmap sin"
  "f_sign exact = fmap sgn" "f_le exact = fle" "f_lt exact = flt" "f_eq exact = feq"
  "f_isnan exact = fisnan" "np_sum exact = fsum" "np_mean exact = fmean"
  "np_dot_aligned exact = fdot" "pd_mean exact = fmean" "pd_std exact = fstd"
  by (simp_all add: exact_def)

lemma exact_cx_sel:
  "c_make exact_cx = Pair" "c_of exact_cx = (\<lambda>v. (v, Fin 0))" "c_j exact_cx = (Fin 0, Fin 1)"
  "c_add exact_cx = cadd" "c_mul exact_cx = cmul" "c_re exact_cx = fst" "c_abs exact_cx = cabs"
  "fft_rfft exact_cx = rfft" "fft_irfft exact_cx = irfft"
  by (simp_all add: exact_cx_def)

lemma eq_zero_exact: "eq_zero exact v \<longleftrightarrow> v = Fin 0"
  by (cases v) (simp_all add: eq_zero_def exact_sel)

subsection \<open>The verdict engine\<close>





lemma compute_details_Inr:
  assumes "compute_details ar fs = Inr d"
  shows "\<exists>df ref clean rand pal refc.
     fit_summary_csv fs = Some df \<and> reference_json fs = Some ref \<and>
     row df ''coherent_bin_clean'' = Inr clean \<and> row df ''random_bin'' = Inr rand \<and>
     row df ''palindrome_bin_no_coherence'' = Inr pal \<and> ref ''coherent_bin_clean'' = Some refc \<and>
     verdict_checks ar clean rand pal refc = Inr (checks d) \<and>
     verdict d = (if list_all snd (checks d) then ''PASS'' else ''FAIL'') \<and>
     tolerances d = [(''TOL'', TOL ar), (''NEG_CONTROL'', NEG_CONTROL ar)] \<and>
     measured d = [(''coherent_bin_clean'', clean), (''random_bin'', rand),
                   (''palindrome_bin_no_coherence'', pal)] \<and>
     reference_used d = [(''coherent_bin_clean'', refc)]"
  using assms unfolding compute_details_def then_do_Inr_iff
  by (auto simp: load_fit_summary_def load_reference_def getitem_def split: option.splits)





lemma compute_verdict_error_keeps_files:
  "compute_verdict ar fs = (Inl e, fs') \<Longrightarrow> fs' = fs"
  by (auto simp: compute_verdict_def split: sum.splits)

text \<open>
  Claim C5. If the fit summary holds no row, or more than one row, for one of the three
  required conditions, or the reference baseline has no entry for the clean condition,
  then \<^verbatim>\<open>compute_verdict\<close> ends in an exception and leaves every file as it was: neither
  the verdict token file nor the verdict details file is written.
\<close>

theorem compute_verdict_fatal_no_partial:
  assumes "fit_summary_csv fs = Some df" and "reference_json fs = Some ref"
    and "length (filter (\<lambda>r. condition r = ''coherent_bin_clean'') df) \<noteq> 1 \<or>
         length (filter (\<lambda>r. condition r = ''random_bin'') df) \<noteq> 1 \<or>
         length (filter (\<lambda>r. condition r = ''palindrome_bin_no_coherence'') df) \<noteq> 1 \<or>
         ref ''coherent_bin_clean'' = None"
  shows "\<exists>e. compute_verdict ar fs = (Inl e, fs)"
proof -
  have "\<exists>e. compute_details ar fs = Inl e"
  proof (cases "compute_details ar fs")
    case (Inl e)
    then show ?thesis by blast
  next
    case (Inr d)
    from compute_details_Inr [OF Inr] assms show ?thesis
      by (auto simp: row_Inr_iff)
  qed
  then show ?thesis by (auto simp: compute_verdict_def)
qed

theorem compute_verdict_fatal_no_partial_witness:
  "fit_summary_csv (example_files 1 (tl example_table)) = Some (tl example_table) \<and>
   length (filter (\<lambda>r. condition r = ''coherent_bin_clean'') (tl example_table)) = 0 \<and>
   (\<exists>e. compute_verdict exact (example_files 1 (tl example_table))
          = (Inl e, example_files 1 (tl example_table)))"
proof -
  have 1: "fit_summary_csv (example_files 1 (tl example_table)) = Some (tl example_table)"
    by (simp add: example_files_def)
  have 2: "reference_json (example_files 1 (tl example_table)) =
           Some [''coherent_bin_clean'' \<mapsto> example_stats 1 (1 / 4) 1 (1 / 2)]"
    by (simp add: example_files_def)
  have 3: "length (filter (\<lambda>r. condition r = ''coherent_bin_clean'') (tl example_table)) = 0"
    by (simp add: example_table_def)
  from compute_verdict_fatal_no_partial [OF 1 2, of exact] 3
  have "\<exists>e. compute_verdict exact (example_files 1 (tl example_table))
          = (Inl e, example_files 1 (tl example_table))"
    by simp
  with 1 3 show ?thesis by simp
qed

subsection \<open>The pipeline end to end\<close>

lemma engine_main_raises: "\<exists>e. engine_main before = Inl e"
  by (cases before) (simp_all add: engine_main_def engine_globals_def runlog_names_def)

lemma student_main_raises: "\<exists>e. student_main ar code code_exists before fs = (Inl e, fs)"
proof -
  from engine_main_raises obtain e where "engine_main before = Inl e" by blast
  then show ?thesis by (simp add: student_main_def run_v6_2_engine_def)
qed

lemma fit_summary_conditions:
  "set (map condition (fit_summary ar recs)) = set (map fr_condition recs)"
  by (simp add: fit_summary_def o_def)

lemma fit_summary_no_clean_row:
  assumes "list_all (\<lambda>r. fr_condition r \<in> set engine_conditions) recs"
  shows "filter (\<lambda>r. condition r = ''coherent_bin_clean'') (fit_summary ar recs) = []"
proof -
  have "''coherent_bin_clean'' \<notin> set engine_conditions" by (simp add: engine_conditions_def)
  with assms have "''coherent_bin_clean'' \<notin> set (map fr_condition recs)"
    by (auto simp: list_all_iff)
  then have "''coherent_bin_clean'' \<notin> set (map condition (fit_summary ar recs))"
    unfolding fit_summary_conditions .
  then have "\<forall>r\<in>set (fit_summary ar recs). condition r \<noteq> ''coherent_bin_clean''"
    by (metis image_eqI set_map)
  then show ?thesis by (simp add: filter_empty_conv)
qed

lemma fit_summary_columns:
  "r \<in> set (fit_summary ar recs) \<Longrightarrow>
   stats r ''R2_mean'' = None \<and> stats r ''R2_std'' = None \<and> stats r ''R2_origin_mean'' = None"
  by (auto simp: fit_summary_def summary_stats_def)

text \<open>
  Claim C1 is not what the code does. The engine's \<^verbatim>\<open>main\<close> always ends in an exception
  (its run log uses \<^verbatim>\<open>sys\<close>, which the module never imports), so the student runner raises
  before it computes a verdict; and on the summary table the engine writes, whatever its
  values, \<^verbatim>\<open>compute_verdict\<close> raises too: the table has no row named
  \<^verbatim>\<open>coherent_bin_clean\<close> (the engine's name is \<^verbatim>\<open>coherent_bin\<close>) and no columns
  \<^verbatim>\<open>R2_mean\<close>, \<^verbatim>\<open>R2_std\<close>, \<^verbatim>\<open>R2_origin_mean\<close>. No run reports PASS or FAIL.
\<close>

theorem pipeline_never_reports_verdict:
  assumes "list_all (\<lambda>r. fr_condition r \<in> set engine_conditions) recs"
    and "fit_summary_csv fs = Some (fit_summary ar recs)" and "reference_json fs = Some ref"
  shows "(\<exists>e. student_main ar code code_exists before fs = (Inl e, fs)) \<and>
         compute_verdict ar fs =
           (Inl (ValueError ''Condition not found or ambiguous: coherent_bin_clean''), fs) \<and>
         list_all (\<lambda>r. stats r ''R2_mean'' = None \<and> stats r ''R2_std'' = None \<and>
                        stats r ''R2_origin_mean'' = None) (fit_summary ar recs)"
proof -
  from fit_summary_no_clean_row [OF assms(1)]
  have "row (fit_summary ar recs) ''coherent_bin_clean''
        = Inl (ValueError ''Condition not found or ambiguous: coherent_bin_clean'')"
    by (simp add: row_def)
  then have "compute_details ar fs
        = Inl (ValueError ''Condition not found or ambiguous: coherent_bin_clean'')"
    using assms(2,3)
    by (simp add: compute_details_def load_fit_summary_def load_reference_def)
  then have "compute_verdict ar fs =
           (Inl (ValueError ''Condition not found or ambiguous: coherent_bin_clean''), fs)"
    by (simp add: compute_verdict_def)
  moreover have "list_all (\<lambda>r. stats r ''R2_mean'' = None \<and> stats r ''R2_std'' = None \<and>
                        stats r ''R2_origin_mean'' = None) (fit_summary ar recs)"
    using fit_summary_columns by (auto simp: list_all_iff)
  ultimately show ?thesis using student_main_raises by blast
qed

theorem pipeline_never_reports_verdict_witness:
  "list_all (\<lambda>r. fr_condition r \<in> set engine_conditions) example_records \<and>
   compute_verdict exact (example_files 1 (fit_summary exact example_records)) =
     (Inl (ValueError ''Condition not found or ambiguous: coherent_bin_clean''),
      example_files 1 (fit_summary exact example_records))"
proof -
  have 1: "list_all (\<lambda>r. fr_condition r \<in> set engine_conditions) example_records"
    by (simp add: example_records_def engine_conditions_def)
  have 2: "fit_summary_csv (example_files 1 (fit_summary exact example_records))
           = Some (fit_summary exact example_records)"
    by (simp add: example_files_def)
  have 3: "reference_json (example_files 1 (fit_summary exact example_records)) =
           Some [''coherent_bin_clean'' \<mapsto> example_stats 1 (1 / 4) 1 (1 / 2)]"
    by (simp add: example_files_def)
  from pipeline_never_reports_verdict [OF 1 2 3] 1 show ?thesis by blast
qed

subsection \<open>The reference-comparison checker\<close>

lemma extract_status_dict:
  "\<exists>s. extract_status (JObj kvs) = Inr s \<and>
       (if truthy s then first_truthy_field kvs = Some s else first_truthy_field kvs = None)"
  by (auto simp: extract_status_def dict_get_def py_or_def first_truthy_field_def
      status_fields_def List.map_filter_simps split: option.splits)



lemma filter_Nil_list_all: "filter (\<lambda>c. \<not> P c) xs = [] \<longleftrightarrow> list_all P xs"
  by (induction xs) auto



text \<open>
  The two ways in which the checker ends in an exception of its own: details that parse to
  a value other than a dict, and a summary table that cannot be read once a status was found.
\<close>

lemma check_main_not_a_dict:
  assumes "length argv = 2" and "is_directory base" and "list_all (file_exists base) REQUIRED"
    and "verdict_parsed base = Inr v" and "\<forall>kvs. v \<noteq> JObj kvs"
  shows "check_main upper repr argv base = Inl (AttributeError ''get'')"
proof -
  from assms(3) have f: "filter (\<lambda>rel. \<not> file_exists base rel) REQUIRED = []"
    by (simp only: filter_Nil_list_all)
  from assms(5) have "extract_status v = Inl (AttributeError ''get'')"
    by (cases v) (simp_all add: extract_status_def dict_get_def)
  then show ?thesis using assms(1,2,4) by (simp add: check_main_def f)
qed

lemma check_main_unreadable_table:
  assumes "length argv = 2" and "is_directory base" and "list_all (file_exists base) REQUIRED"
    and "verdict_parsed base = Inr (JObj kvs)" and "first_truthy_field kvs = Some status"
    and "csv_text base = Inl e"
  shows "check_main upper repr argv base = Inl e"
proof -
  from assms(3) have f: "filter (\<lambda>rel. \<not> file_exists base rel) REQUIRED = []"
    by (simp only: filter_Nil_list_all)
  from extract_status_dict [of kvs] assms(5) have "extract_status (JObj kvs) = Inr status"
    and "truthy status"
    by (auto split: if_splits)
  then show ?thesis using assms(1,2,4,6) by (simp add: check_main_def f)
qed





subsection \<open>Normalization\<close>

lemma length_unit_rms: "length (unit_rms ar x) = length x"
  by (simp add: unit_rms_def centred_def Let_def)







subsection \<open>The fits\<close>

lemma np_binop_aligned: "length xs = length ys \<Longrightarrow> np_binop f xs ys = Inr (map2 f xs ys)"
  by (simp add: np_binop_def)

lemma ss_res_aligned:
  "length yhat = length y \<Longrightarrow>
   ss_res ar y yhat = Inr (np_sum ar (map (f_sq ar) (map2 (f_sub ar) y yhat)))"
  by (simp add: ss_res_def np_binop_aligned)

lemma r2_score_aligned:
  assumes "length yhat = length y"
  shows "r2_score ar y yhat =
         Inr (if eq_zero ar (ss_tot ar y) then f_nan ar
              else f_sub ar (f_lit ar 1)
                     (f_div ar (np_sum ar (map (f_sq ar) (map2 (f_sub ar) y yhat))) (ss_tot ar y)))"
  by (simp add: r2_score_def ss_res_aligned [OF assms] Let_def py_div_guarded)

lemma fit_through_origin_aligned:
  assumes "length x = length y"
  shows "fit_through_origin ar x y =
     (let beta = (if eq_zero ar (np_dot_aligned ar x x) then f_nan ar
                  else f_div ar (np_dot_aligned ar x y) (np_dot_aligned ar x x))
      in Inr (beta,
              if eq_zero ar (ss_tot ar y) then f_nan ar
              else f_sub ar (f_lit ar 1)
                     (f_div ar (np_sum ar (map (f_sq ar) (map2 (f_sub ar) y (map (f_mul ar beta) x))))
                               (ss_tot ar y))))"
proof -
  have l: "\<And>b. length (map (f_mul ar b) x) = length y" using assms by simp
  show ?thesis
    unfolding fit_through_origin_def Let_def
    by (simp add: np_dot_def assms r2_score_aligned [OF l])
qed


lemma fsum_cons: "fsum (v # vs) = fadd v (fsum vs)"
  by (simp add: fsum_def)

lemma fsum_nil: "fsum [] = Fin 0"
  by (simp add: fsum_def)





subsection \<open>Degenerate fits and their aggregation\<close>

lemma r2_score_total: "length yhat = length y \<Longrightarrow> \<exists>q. r2_score ar y yhat = Inr q"
  by (simp add: r2_score_aligned)

lemma r2_score_zero_ss_tot:
  "length yhat = length y \<Longrightarrow> eq_zero ar (ss_tot ar y) \<Longrightarrow> r2_score ar y yhat = Inr (f_nan ar)"
  by (simp add: r2_score_aligned)

lemma fit_through_origin_total:
  "length x = length y \<Longrightarrow> \<exists>b q. fit_through_origin ar x y = Inr (b, q)"
  by (simp add: fit_through_origin_aligned Let_def)

lemma fit_through_origin_zero_ss_tot:
  "length x = length y \<Longrightarrow> eq_zero ar (ss_tot ar y) \<Longrightarrow>
   \<exists>b. fit_through_origin ar x y = Inr (b, f_nan ar)"
  by (simp add: fit_through_origin_aligned Let_def)

lemma fit_through_origin_zero_norm:
  "length x = length y \<Longrightarrow> eq_zero ar (np_dot_aligned ar x x) \<Longrightarrow>
   \<exists>q. fit_through_origin ar x y = Inr (f_nan ar, q)"
  by (simp add: fit_through_origin_aligned Let_def)

lemma agg_skip_nan:
  "f_isnan ar v \<Longrightarrow> agg_mean ar (v # col) = agg_mean ar col \<and> agg_std ar (v # col) = agg_std ar col"
  by (simp add: agg_mean_def agg_std_def dropna_def)

lemma length_dropna: "length (dropna ar col) \<le> length col"
  by (simp add: dropna_def)

lemma agg_std_short: "length col < 2 \<Longrightarrow> agg_std ar col = f_nan ar"
  using length_dropna [of ar col] by (simp add: agg_std_def Let_def)

lemma agg_std_ddof:
  "2 \<le> length col \<Longrightarrow> list_all (\<lambda>v. \<not> f_isnan ar v) col \<Longrightarrow> agg_std ar col = pd_std ar 1 col"
  by (simp add: agg_std_def dropna_def Let_def list_all_iff)

lemma fit_summary_row:
  assumes "c \<in> set (map fr_condition recs)"
  shows "\<lparr> condition = c,
           stats = map_of (summary_stats ar (filter (\<lambda>r. fr_condition r = c) recs)) \<rparr>
         \<in> set (fit_summary ar recs)"
  using assms by (simp add: fit_summary_def image_iff)

lemma summary_std_short:
  assumes "length g < 2"
  shows "list_all (\<lambda>k. map_of (summary_stats ar g) k = Some (f_nan ar))
           [''beta_origin_std'', ''r2_origin_std'', ''slope_std'', ''intercept_std'', ''r2_std'',
            ''E0_std'', ''beta_origin_delta_std'', ''r2_origin_delta_std'']"
  using assms by (simp add: summary_stats_def agg_std_short)

text \<open>
  Claim C6. For every arithmetic and all paired data, \<^verbatim>\<open>fit_through_origin\<close> returns a
  slope and a quality and \<^verbatim>\<open>r2_score\<close> returns a quality: neither raises. When the total
  sum of squares equals zero the quality is NaN, and when the design vector's product with
  itself equals zero the slope is NaN. The reductions of the summary skip NaN entries; a
  column of fewer than two values has the standard deviation NaN, and so has every
  standard-deviation column of a condition with fewer than two records; for two or more
  values, none of them NaN, it is the standard deviation with one delta degree of freedom,
  whose divisor is the count minus one.
\<close>

theorem degenerate_fit_never_raises:
  assumes "length x = length y"
  shows "(\<exists>b q. fit_through_origin ar x y = Inr (b, q)) \<and>
     (\<forall>yhat. length yhat = length y \<longrightarrow> (\<exists>q. r2_score ar y yhat = Inr q)) \<and>
     (eq_zero ar (ss_tot ar y) \<longrightarrow>
        (\<forall>yhat. length yhat = length y \<longrightarrow> r2_score ar y yhat = Inr (f_nan ar)) \<and>
        (\<exists>b. fit_through_origin ar x y = Inr (b, f_nan ar))) \<and>
     (eq_zero ar (np_dot_aligned ar x x) \<longrightarrow> (\<exists>q. fit_through_origin ar x y = Inr (f_nan ar, q))) \<and>
     (\<forall>v col. f_isnan ar v \<longrightarrow>
        agg_mean ar (v # col) = agg_mean ar col \<and> agg_std ar (v # col) = agg_std ar col) \<and>
     (\<forall>col. length col < 2 \<longrightarrow> agg_std ar col = f_nan ar) \<and>
     (\<forall>col. 2 \<le> length col \<and> list_all (\<lambda>v. \<not> f_isnan ar v) col \<longrightarrow>
        agg_std ar col = pd_std ar 1 col) \<and>
     (\<forall>recs c. c \<in> set (map fr_condition recs) \<and>
                length (filter (\<lambda>r. fr_condition r = c) recs) < 2 \<longrightarrow>
        (\<exists>r \<in> set (fit_summary ar recs). condition r = c \<and>
           list_all (\<lambda>k. stats r k = Some (f_nan ar))
             [''beta_origin_std'', ''r2_origin_std'', ''slope_std'', ''intercept_std'', ''r2_std'',
              ''E0_std'', ''beta_origin_delta_std'', ''r2_origin_delta_std'']))"
proof -
  have 8: "\<forall>recs c. c \<in> set (map fr_condition recs) \<and>
                length (filter (\<lambda>r. fr_condition r = c) recs) < 2 \<longrightarrow>
        (\<exists>r \<in> set (fit_summary ar recs). condition r = c \<and>
           list_all (\<lambda>k. stats r k = Some (f_nan ar))
             [''beta_origin_std'', ''r2_origin_std'', ''slope_std'', ''intercept_std'', ''r2_std'',
              ''E0_std'', ''beta_origin_delta_std'', ''r2_origin_delta_std''])"
  proof (intro allI impI)
    fix recs :: "'a fit_record list" and c
    assume a: "c \<in> set (map fr_condition recs) \<and>
                length (filter (\<lambda>r. fr_condition r = c) recs) < 2"
    let ?r = "\<lparr> condition = c,
           stats = map_of (summary_stats ar (filter (\<lambda>r. fr_condition r = c) recs)) \<rparr>"
    from a fit_summary_row have "?r \<in> set (fit_summary ar recs)" by blast
    moreover have "condition ?r = c" by simp
    moreover from a summary_std_short [of "filter (\<lambda>r. fr_condition r = c) recs" ar]
    have "list_all (\<lambda>k. stats ?r k = Some (f_nan ar))
             [''beta_origin_std'', ''r2_origin_std'', ''slope_std'', ''intercept_std'', ''r2_std'',
              ''E0_std'', ''beta_origin_delta_std'', ''r2_origin_delta_std'']"
      by simp
    ultimately show "\<exists>r \<in> set (fit_summary ar recs). condition r = c \<and>
           list_all (\<lambda>k. stats r k = Some (f_nan ar))
             [''beta_origin_std'', ''r2_origin_std'', ''slope_std'', ''intercept_std'', ''r2_std'',
              ''E0_std'', ''beta_origin_delta_std'', ''r2_origin_delta_std'']"
      by blast
  qed
  have 1: "\<exists>b q. fit_through_origin ar x y = Inr (b, q)"
    by (rule fit_through_origin_total [OF assms])
  have 2: "\<forall>yhat. length yhat = length y \<longrightarrow> (\<exists>q. r2_score ar y yhat = Inr q)"
    by (simp add: r2_score_total)
  have 3: "eq_zero ar (ss_tot ar y) \<longrightarrow>
        (\<forall>yhat. length yhat = length y \<longrightarrow> r2_score ar y yhat = Inr (f_nan ar)) \<and>
        (\<exists>b. fit_through_origin ar x y = Inr (b, f_nan ar))"
    by (simp add: r2_score_zero_ss_tot fit_through_origin_zero_ss_tot [OF assms])
  have 4: "eq_zero ar (np_dot_aligned ar x x) \<longrightarrow>
        (\<exists>q. fit_through_origin ar x y = Inr (f_nan ar, q))"
    by (simp add: fit_through_origin_zero_norm [OF assms])
  have 5: "\<forall>v col. f_isnan ar v \<longrightarrow>
        agg_mean ar (v # col) = agg_mean ar col \<and> agg_std ar (v # col) = agg_std ar col"
    by (simp add: agg_skip_nan)
  have 6: "\<forall>col. length col < 2 \<longrightarrow> agg_std ar col = f_nan ar"
    by (simp add: agg_std_short)
  have 7: "\<forall>col. 2 \<le> length col \<and> list_all (\<lambda>v. \<not> f_isnan ar v) col \<longrightarrow>
        agg_std ar col = pd_std ar 1 col"
    by (simp add: agg_std_ddof)
  show ?thesis
    by (rule conjI [OF 1 conjI [OF 2 conjI [OF 3 conjI [OF 4 conjI [OF 5 conjI [OF 6 conjI [OF 7 8]]]]]]])
qed

theorem degenerate_fit_never_raises_witness:
  "length [Fin 0, Fin 0] = length [Fin 2, Fin 2] \<and>
   eq_zero exact (ss_tot exact [Fin 2, Fin 2]) \<and>
   eq_zero exact (np_dot_aligned exact [Fin 0, Fin 0] [Fin 0, Fin 0]) \<and>
   fit_through_origin exact [Fin 0, Fin 0] [Fin 2, Fin 2] = Inr (NaN, NaN) \<and>
   agg_mean exact [NaN, Fin 1] = agg_mean exact [Fin 1] \<and>
   agg_std exact [NaN, Fin 1] = NaN"
proof -
  have l: "length [Fin 0, Fin 0] = length [Fin 2, Fin 2]" by simp
  have t: "eq_zero exact (ss_tot exact [Fin 2, Fin 2])"
    by (simp add: ss_tot_def eq_zero_exact exact_sel fsum_cons fsum_nil fmean_def)
  have n: "eq_zero exact (np_dot_aligned exact [Fin 0, Fin 0] [Fin 0, Fin 0])"
    by (simp add: eq_zero_exact exact_sel fdot_def fsum_cons fsum_nil)
  have i: "f_isnan exact NaN" by (simp add: exact_sel)
  have s: "length [Fin 1] < 2" by simp
  note th = degenerate_fit_never_raises [OF l, of exact]
  from th t obtain b where 1: "fit_through_origin exact [Fin 0, Fin 0] [Fin 2, Fin 2] = Inr (b, NaN)"
    by (auto simp: exact_sel)
  from th n obtain q where 2: "fit_through_origin exact [Fin 0, Fin 0] [Fin 2, Fin 2] = Inr (NaN, q)"
    by (auto simp: exact_sel)
  from 1 2 have f: "fit_through_origin exact [Fin 0, Fin 0] [Fin 2, Fin 2] = Inr (NaN, NaN)"
    by simp
  from th i have a: "agg_mean exact [NaN, Fin 1] = agg_mean exact [Fin 1]"
    and "agg_std exact [NaN, Fin 1] = agg_std exact [Fin 1]"
    by blast+
  moreover from th s have "agg_std exact [Fin 1] = NaN" by (auto simp: exact_sel)
  ultimately have d: "agg_std exact [NaN, Fin 1] = NaN" by simp
  from l t n f a d show ?thesis by blast
qed

subsection \<open>The signal synthesizer\<close>

lemma accept_loop_raise:
  assumes "candidate ar cx p m idx g = Inl e"
  shows "accept_loop ar cx p m idx g = Some (Inl e)"
  by (subst accept_loop.simps) (simp only: assms sum.case)

lemma accept_loop_rejected:
  assumes "candidate ar cx p m idx g = Inr (x, d, False, g')"
  shows "accept_loop ar cx p m idx g = accept_loop ar cx p m idx g'"
  by (subst accept_loop.simps) (simp only: assms prod.case sum.case if_False)

lemma accept_loop_accept:
  assumes "candidate ar cx p m idx g = Inr (x, d, True, g')"
  shows "accept_loop ar cx p m idx g = Some (Inr (x, d, g'))"
  by (subst accept_loop.simps) (simp only: assms prod.case sum.case if_True)

lemma rejected_iff:
  "rejected ar cx p m idx g \<longleftrightarrow> (\<exists>x d g'. candidate ar cx p m idx g = Inr (x, d, False, g'))"
  by (auto simp: rejected_def split: sum.splits)

lemma redraw_Inr: "candidate ar cx p m idx g = Inr (x, d, ok, g') \<Longrightarrow> redraw ar cx p m idx g = g'"
  by (simp add: redraw_def)

lemma rejected_step:
  assumes "rejected ar cx p m idx g"
  shows "accept_loop ar cx p m idx g = accept_loop ar cx p m idx (redraw ar cx p m idx g)"
proof -
  from assms obtain x d g' where c: "candidate ar cx p m idx g = Inr (x, d, False, g')"
    unfolding rejected_iff by blast
  from accept_loop_rejected [OF c] redraw_Inr [OF c] show ?thesis by simp
qed

lemma rejected_steps:
  "(\<forall>i<N. rejected ar cx p m idx ((redraw ar cx p m idx ^^ i) g)) \<Longrightarrow>
   accept_loop ar cx p m idx g = accept_loop ar cx p m idx ((redraw ar cx p m idx ^^ N) g)"
proof (induction N)
  case 0
  then show ?case by simp
next
  case (Suc N)
  then have "accept_loop ar cx p m idx g = accept_loop ar cx p m idx ((redraw ar cx p m idx ^^ N) g)"
    by simp
  also have "\<dots> = accept_loop ar cx p m idx (redraw ar cx p m idx ((redraw ar cx p m idx ^^ N) g))"
    using Suc.prems by (intro rejected_step) simp
  finally show ?case by simp
qed

lemma accept_loop_Some_path:
  assumes "accept_loop (ar :: 'f arith) (cx :: ('f, 'c) cplx) p m idx g = Some y"
  shows "\<exists>i. \<not> rejected ar cx p m idx ((redraw ar cx p m idx ^^ i) g)"
proof (rule accept_loop.raw_induct [where P = "\<lambda>ar cx p m idx g y.
         \<exists>i. \<not> rejected ar cx p m idx ((redraw ar cx p m idx ^^ i) g)", OF _ assms])
  fix f :: "'f arith \<Rightarrow> ('f, 'c) cplx \<Rightarrow> 'f Params \<Rightarrow> nat \<Rightarrow> nat list \<Rightarrow> 'f rng \<Rightarrow>
            (py_error + ('f list \<times> 'f diagnostics \<times> 'f rng)) option"
  fix ar :: "'f arith" and cx :: "('f, 'c) cplx" and p m idx g y
  assume IH: "\<And>ar cx p m idx g y. f ar cx p m idx g = Some y \<Longrightarrow>
         \<exists>i. \<not> rejected ar cx p m idx ((redraw ar cx p m idx ^^ i) g)"
  assume eq: "(case candidate ar cx p m idx g of
        Inl e \<Rightarrow> Some (Inl e)
      | Inr (x, d, ok, g') \<Rightarrow> if ok then Some (Inr (x, d, g')) else f ar cx p m idx g') = Some y"
  show "\<exists>i. \<not> rejected ar cx p m idx ((redraw ar cx p m idx ^^ i) g)"
  proof (cases "rejected ar cx p m idx g")
    case False
    then have "\<not> rejected ar cx p m idx ((redraw ar cx p m idx ^^ 0) g)" by simp
    then show ?thesis by blast
  next
    case True
    then obtain x d g' where c: "candidate ar cx p m idx g = Inr (x, d, False, g')"
      unfolding rejected_iff by blast
    with eq have "f ar cx p m idx g' = Some y" by simp
    from IH [OF this] obtain i where "\<not> rejected ar cx p m idx ((redraw ar cx p m idx ^^ i) g')"
      by blast
    moreover from redraw_Inr [OF c] have "g' = redraw ar cx p m idx g" by simp
    ultimately have "\<not> rejected ar cx p m idx ((redraw ar cx p m idx ^^ Suc i) g)"
      by (simp add: funpow_swap1)
    then show ?thesis by blast
  qed
qed

lemma never_accepted_None:
  assumes "\<forall>i. rejected ar cx p m idx ((redraw ar cx p m idx ^^ i) g)"
  shows "accept_loop ar cx p m idx g = None"
proof (cases "accept_loop ar cx p m idx g")
  case None
  then show ?thesis .
next
  case (Some y)
  from accept_loop_Some_path [OF Some] assms show ?thesis by blast
qed

lemma accept_loop_returns_accepted:
  assumes "accept_loop (ar :: 'f arith) (cx :: ('f, 'c) cplx) p m idx g = Some y"
  shows "case y of Inl e \<Rightarrow> True
         | Inr (x, d, g') \<Rightarrow> \<exists>g0. candidate ar cx p m idx g0 = Inr (x, d, True, g')"
proof (rule accept_loop.raw_induct [where P = "\<lambda>ar cx p m idx g y. case y of Inl e \<Rightarrow> True
         | Inr (x, d, g') \<Rightarrow> \<exists>g0. candidate ar cx p m idx g0 = Inr (x, d, True, g')", OF _ assms])
  fix f :: "'f arith \<Rightarrow> ('f, 'c) cplx \<Rightarrow> 'f Params \<Rightarrow> nat \<Rightarrow> nat list \<Rightarrow> 'f rng \<Rightarrow>
            (py_error + ('f list \<times> 'f diagnostics \<times> 'f rng)) option"
  fix ar :: "'f arith" and cx :: "('f, 'c) cplx" and p m idx g y
  assume IH: "\<And>ar cx p m idx g y. f ar cx p m idx g = Some y \<Longrightarrow> case y of Inl e \<Rightarrow> True
         | Inr (x, d, g') \<Rightarrow> \<exists>g0. candidate ar cx p m idx g0 = Inr (x, d, True, g')"
  assume eq: "(case candidate ar cx p m idx g of
        Inl e \<Rightarrow> Some (Inl e)
      | Inr (x, d, ok, g') \<Rightarrow> if ok then Some (Inr (x, d, g')) else f ar cx p m idx g') = Some y"
  show "case y of Inl e \<Rightarrow> True
         | Inr (x, d, g') \<Rightarrow> \<exists>g0. candidate ar cx p m idx g0 = Inr (x, d, True, g')"
  proof (cases "candidate ar cx p m idx g")
    case (Inl e)
    with eq have "y = Inl e" by simp
    then show ?thesis by simp
  next
    case (Inr t)
    obtain x d ok g' where t: "t = (x, d, ok, g')" by (cases t)
    show ?thesis
    proof (cases ok)
      case True
      with eq Inr t have y: "y = Inr (x, d, g')" by simp
      from Inr t True have "\<exists>g0. candidate ar cx p m idx g0 = Inr (x, d, True, g')" by auto
      with y show ?thesis by simp
    next
      case False
      with eq Inr t have "f ar cx p m idx g' = Some y" by simp
      from IH [OF this] show ?thesis .
    qed
  qed
qed

lemma fill_spectrum_draws:
  "fill_spectrum ar cx ps idx spec g = Inr (spec', g') \<Longrightarrow>
   g' = (\<lambda>i. g (i + length idx)) \<and> length spec' = length spec"
proof (induction idx arbitrary: spec g)
  case Nil
  then show ?case by simp
next
  case (Cons k ks)
  from Cons.prems obtain amp where a: "amplitude ar ps k = Inr amp"
    by (auto simp: then_do_Inr_iff)
  let ?z = "c_mul cx (c_of cx amp)
              (c_add cx (c_of cx (f_cos ar (g 0))) (c_mul cx (c_j cx) (c_of cx (f_sin ar (g 0)))))"
  from Cons.prems a have k: "k < length spec"
    and r: "fill_spectrum ar cx ps ks (spec[k := ?z]) (\<lambda>i. g (Suc i)) = Inr (spec', g')"
    by (auto simp: uniform_def split: if_splits)
  from Cons.IH [OF r] show ?case by simp
qed

lemma candidate_Inr:
  assumes "candidate ar cx p m idx g = Inr (x, d, ok, g')"
  shows "ok = gates ar p d \<and> g' = (\<lambda>i. g (i + length idx))"
proof -
  from assms obtain spec0 g1 where
    f: "fill_spectrum ar cx (p_spectrum p) idx
          (replicate (m div 2 + 1) (c_make cx (f_lit ar 0) (f_lit ar 0))) g = Inr (spec0, g1)"
    and r: "(let spec = (if even m
                 then spec0[length spec0 - 1 := c_make cx (c_re cx (last spec0)) (f_lit ar 0)]
                 else spec0)
     in then_do (np_irfft cx spec m) (\<lambda>h.
        let x = unit_rms ar (h @ rev h) in
        then_do (low_freq_ratio ar cx x (band p)) (\<lambda>lam.
        let mu = np_mean ar x;
            sc = sign_changes_half ar x
        in Inr (x, (lam, mu, sc), gates ar p (lam, mu, sc), g1)))) = Inr (x, d, ok, g')"
    unfolding candidate_def then_do_Inr_iff by auto
  from r have "ok = gates ar p d \<and> g' = g1"
    unfolding Let_def then_do_Inr_iff by auto
  with fill_spectrum_draws [OF f] show ?thesis by simp
qed

lemma gates_empty_range: "sign_changes_max p < sign_changes_min p \<Longrightarrow> \<not> gates ar p d"
  by (cases d) (auto simp: gates_def)


text \<open>
  Claim C4. Inside \<^verbatim>\<open>generate_coherent_soft\<close>, once the bins are found, the result is that
  of the loop, and the loop has no bound on its attempts. A pass that raises nothing yields a
  candidate that is accepted exactly when it passes the three gates, and it has drawn one
  phase for each bin; an accepted candidate is returned, an exception ends the call, and a
  rejected candidate is discarded: the loop goes on with the generator the pass has left. So
  after any number \<open>N\<close> of rejections in a row the call is still running, \<open>N\<close> passes on, and
  when every pass of the run ends in a rejection the call never returns (\<open>None\<close>). Under a
  parameter setting that no candidate can meet, a minimum of sign changes above the maximum,
  the call never returns a sequence: it runs forever unless a pass raises.
\<close>

theorem rejection_loop_unbounded:
  assumes "rfftfreq ar (par_n p div 2) = Inr freqs_m" and "idx = freq_bins ar p freqs_m"
    and "idx \<noteq> []" and "m = nat (par_n p div 2)"
  shows "generate_coherent_soft ar cx g p = accept_loop ar cx p m idx g \<and>
     (\<forall>x d ok g'. candidate ar cx p m idx g = Inr (x, d, ok, g') \<longrightarrow>
        ok = gates ar p d \<and> g' = (\<lambda>i. g (i + length idx)) \<and>
        generate_coherent_soft ar cx g p =
          (if ok then Some (Inr (x, d, g')) else accept_loop ar cx p m idx g')) \<and>
     (\<forall>e. candidate ar cx p m idx g = Inl e \<longrightarrow> generate_coherent_soft ar cx g p = Some (Inl e)) \<and>
     (\<forall>N. (\<forall>i<N. rejected ar cx p m idx ((redraw ar cx p m idx ^^ i) g)) \<longrightarrow>
          generate_coherent_soft ar cx g p = accept_loop ar cx p m idx ((redraw ar cx p m idx ^^ N) g)) \<and>
     ((\<forall>i. rejected ar cx p m idx ((redraw ar cx p m idx ^^ i) g)) \<longrightarrow>
          generate_coherent_soft ar cx g p = None) \<and>
     (sign_changes_max p < sign_changes_min p \<longrightarrow>
          (\<forall>r. generate_coherent_soft ar cx g p \<noteq> Some (Inr r)) \<and>
          ((\<forall>i. \<not> isl (candidate ar cx p m idx ((redraw ar cx p m idx ^^ i) g))) \<longrightarrow>
             generate_coherent_soft ar cx g p = None))"
proof -
  have 1: "generate_coherent_soft ar cx g p = accept_loop ar cx p m idx g"
    using assms by (simp add: generate_coherent_soft_def Let_def)
  have 2: "\<forall>x d ok g'. candidate ar cx p m idx g = Inr (x, d, ok, g') \<longrightarrow>
        ok = gates ar p d \<and> g' = (\<lambda>i. g (i + length idx)) \<and>
        generate_coherent_soft ar cx g p =
          (if ok then Some (Inr (x, d, g')) else accept_loop ar cx p m idx g')"
  proof (intro allI impI)
    fix x d ok g'
    assume c: "candidate ar cx p m idx g = Inr (x, d, ok, g')"
    have "accept_loop ar cx p m idx g =
          (if ok then Some (Inr (x, d, g')) else accept_loop ar cx p m idx g')"
    proof (cases ok)
      case True
      with c accept_loop_accept show ?thesis by simp
    next
      case False
      with c accept_loop_rejected show ?thesis by simp
    qed
    with candidate_Inr [OF c] 1
    show "ok = gates ar p d \<and> g' = (\<lambda>i. g (i + length idx)) \<and>
        generate_coherent_soft ar cx g p =
          (if ok then Some (Inr (x, d, g')) else accept_loop ar cx p m idx g')"
      by simp
  qed
  have 3: "\<forall>e. candidate ar cx p m idx g = Inl e \<longrightarrow>
             generate_coherent_soft ar cx g p = Some (Inl e)"
    by (simp add: 1 accept_loop_raise)
  have 4: "\<forall>N. (\<forall>i<N. rejected ar cx p m idx ((redraw ar cx p m idx ^^ i) g)) \<longrightarrow>
          generate_coherent_soft ar cx g p = accept_loop ar cx p m idx ((redraw ar cx p m idx ^^ N) g)"
    unfolding 1 using rejected_steps by blast
  have 5: "(\<forall>i. rejected ar cx p m idx ((redraw ar cx p m idx ^^ i) g)) \<longrightarrow>
          generate_coherent_soft ar cx g p = None"
    unfolding 1 using never_accepted_None by blast
  have 6: "sign_changes_max p < sign_changes_min p \<longrightarrow>
          (\<forall>r. generate_coherent_soft ar cx g p \<noteq> Some (Inr r)) \<and>
          ((\<forall>i. \<not> isl (candidate ar cx p m idx ((redraw ar cx p m idx ^^ i) g))) \<longrightarrow>
             generate_coherent_soft ar cx g p = None)"
  proof (intro impI conjI allI)
    fix r
    assume e: "sign_changes_max p < sign_changes_min p"
    show "generate_coherent_soft ar cx g p \<noteq> Some (Inr r)"
    proof
      assume "generate_coherent_soft ar cx g p = Some (Inr r)"
      with 1 have a: "accept_loop ar cx p m idx g = Some (Inr r)" by simp
      obtain x d g' where r: "r = (x, d, g')" by (cases r)
      from accept_loop_returns_accepted [OF a] r obtain g0 where
        c: "candidate ar cx p m idx g0 = Inr (x, d, True, g')" by auto
      from candidate_Inr [OF c] gates_empty_range [OF e] show False by simp
    qed
  next
    assume e: "sign_changes_max p < sign_changes_min p"
      and n: "\<forall>i. \<not> isl (candidate ar cx p m idx ((redraw ar cx p m idx ^^ i) g))"
    have "\<forall>i. rejected ar cx p m idx ((redraw ar cx p m idx ^^ i) g)"
    proof
      fix i
      from n obtain t where "candidate ar cx p m idx ((redraw ar cx p m idx ^^ i) g) = Inr t"
        by (cases "candidate ar cx p m idx ((redraw ar cx p m idx ^^ i) g)") (auto dest: spec [of _ i])
      moreover obtain x d ok g' where "t = (x, d, ok, g')" by (cases t)
      ultimately have c: "candidate ar cx p m idx ((redraw ar cx p m idx ^^ i) g) = Inr (x, d, ok, g')"
        by simp
      from candidate_Inr [OF c] gates_empty_range [OF e] have "\<not> ok" by simp
      with c show "rejected ar cx p m idx ((redraw ar cx p m idx ^^ i) g)"
        by (simp add: rejected_def)
    qed
    with 5 show "generate_coherent_soft ar cx g p = None" by simp
  qed
  show ?thesis
    by (rule conjI [OF 1 conjI [OF 2 conjI [OF 3 conjI [OF 4 conjI [OF 5 6]]]]])
qed

lemma rfftfreq_exact:
  assumes "0 < n"
  shows "rfftfreq exact (int n) = Inr (map (\<lambda>k. Fin (real k * (1 / real n))) [0..<n div 2 + 1])"
proof -
  have "nat (int n div 2 + 1) = n div 2 + 1" by linarith
  with assms show ?thesis
    by (simp add: rfftfreq_def py_div_def eq_zero_exact exact_sel)
qed

lemma length_rfft: "length (rfft x) = length x div 2 + 1"
  by (simp add: rfft_def)

lemma length_irfft: "length (irfft spec m) = m"
  by (simp add: irfft_def)

lemma guarded_div_exact:
  "\<exists>lam. (if f_lt exact (f_lit exact 0) den then py_div exact num den
          else Inr (f_lit exact 0)) = Inr lam"
proof (cases "f_lt exact (f_lit exact 0) den")
  case True
  then have "\<not> eq_zero exact den"
    by (cases den) (simp_all add: exact_sel eq_zero_exact)
  then show ?thesis using True by (simp add: py_div_guarded)
next
  case False
  then show ?thesis by simp
qed

lemma low_freq_ratio_exact_total:
  assumes "x \<noteq> []"
  shows "\<exists>lam. low_freq_ratio exact exact_cx x b = Inr lam"
proof -
  from assms have n: "0 < length x" by simp
  have l: "length (fft_rfft exact_cx x) = length x div 2 + 1"
    by (simp add: exact_cx_sel length_rfft)
  show ?thesis
    unfolding low_freq_ratio_def Let_def rfftfreq_exact [OF n]
    using assms l by (simp split del: if_split add: guarded_div_exact)
qed

lemma example_candidate_total:
  "\<exists>r. candidate exact exact_cx example_params 2 [Suc 0] g = Inr r"
proof -
  have a: "amplitude exact (Fin 2) (Suc 0) = Inr (Fin 1)"
    by (simp add: amplitude_def py_div_def eq_zero_exact exact_sel)
  obtain spec0 g1 where f: "fill_spectrum exact exact_cx (p_spectrum example_params) [Suc 0]
          (replicate (2 div 2 + 1) (c_make exact_cx (f_lit exact 0) (f_lit exact 0))) g
          = Inr (spec0, g1)"
    by (simp add: example_params_def a uniform_def)
  let ?spec = "spec0[length spec0 - 1 := c_make exact_cx (c_re exact_cx (last spec0)) (f_lit exact 0)]"
  let ?h = "fft_irfft exact_cx ?spec 2"
  have "unit_rms exact (?h @ rev ?h) \<noteq> []"
    using length_unit_rms [of exact "?h @ rev ?h"] by (auto simp: exact_cx_sel length_irfft)
  from low_freq_ratio_exact_total [OF this] obtain lam where
    "low_freq_ratio exact exact_cx (unit_rms exact (?h @ rev ?h)) (band example_params) = Inr lam"
    by blast
  with f show ?thesis
    by (simp add: candidate_def np_irfft_def Let_def)
qed

theorem rejection_loop_unbounded_witness:
  "rfftfreq exact (par_n example_params div 2) = Inr [Fin 0, Fin (1 / 2)] \<and>
   freq_bins exact example_params [Fin 0, Fin (1 / 2)] = [Suc 0] \<and>
   sign_changes_max example_params < sign_changes_min example_params \<and>
   generate_coherent_soft exact exact_cx (\<lambda>i. Fin 0) example_params = None"
proof -
  have 1: "rfftfreq exact (par_n example_params div 2) = Inr [Fin 0, Fin (1 / 2)]"
    using rfftfreq_exact [of 2] by (simp add: example_params_def upt_conv_Cons)
  have 2: "freq_bins exact example_params [Fin 0, Fin (1 / 2)] = [Suc 0]"
    by (simp add: freq_bins_def example_params_def exact_sel upt_conv_Cons)
  have 3: "[Suc 0] \<noteq> []" by simp
  have 4: "2 = nat (par_n example_params div 2)" by (simp add: example_params_def)
  have 5: "sign_changes_max example_params < sign_changes_min example_params"
    by (simp add: example_params_def)
  have 6: "\<forall>i. \<not> isl (candidate exact exact_cx example_params 2 [Suc 0]
              ((redraw exact exact_cx example_params 2 [Suc 0] ^^ i) (\<lambda>i. Fin 0)))"
  proof
    fix i
    from example_candidate_total obtain r where
      "candidate exact exact_cx example_params 2 [Suc 0]
         ((redraw exact exact_cx example_params 2 [Suc 0] ^^ i) (\<lambda>i. Fin 0)) = Inr r"
      by blast
    then show "\<not> isl (candidate exact exact_cx example_params 2 [Suc 0]
              ((redraw exact exact_cx example_params 2 [Suc 0] ^^ i) (\<lambda>i. Fin 0)))"
      by simp
  qed
  from rejection_loop_unbounded [OF 1 2 [symmetric] 3 4, of exact_cx "\<lambda>i. Fin 0"] 5 6
  have "generate_coherent_soft exact exact_cx (\<lambda>i. Fin 0) example_params = None"
    by blast
  with 1 2 5 show ?thesis by blast
qed

end
